theory Spec2Isabelle
  imports Complex_Main "HOL-Library.Multiset"
begin

section \<open>Values shared by the backend and the analysis service\<close>

text \<open>
  Python \<open>str\<close> values are HOL strings, one \<open>char\<close> per Python character, so that
  slicing and \<open>len\<close> count the same positions in both. JSON documents (what
  \<open>json.loads\<close> returns and what the JSON columns hold) are a datatype; Python's
  \<open>None\<close> and JSON \<open>null\<close> are the one value \<open>JNull\<close>. A \<open>dict\<close> is an
  association list read with \<open>map_of\<close>.
\<close>

datatype json =
    JNull
  | JBool bool
  | JInt int
  | JFloat real
  | JStr string
  | JList "json list"
  | JObj "(string \<times> json) list"

type_synonym pydict = "(string \<times> json) list"

text \<open>The exception classes the code raises or handles; a \<open>BaseException\<close> that is not an
  \<open>Exception\<close> (task cancellation, interpreter exit) is outside the model.\<close>

datatype py_exception =
    TimeoutError
  | Exception string
  | JSONDecodeError string
  | AttributeError string
  | NotImplementedError string
  | OSError string
  | ValueError string

text \<open>\<open>str(e)\<close>: the message the exception was built with.\<close>

fun str_exc :: "py_exception \<Rightarrow> string" where
  "str_exc TimeoutError = []"
| "str_exc (Exception m) = m"
| "str_exc (JSONDecodeError m) = m"
| "str_exc (AttributeError m) = m"
| "str_exc (NotImplementedError m) = m"
| "str_exc (OSError m) = m"
| "str_exc (ValueError m) = m"

text \<open>\<open>d.get(k, default)\<close> on a dict.\<close>

definition dict_get :: "pydict \<Rightarrow> string \<Rightarrow> json \<Rightarrow> json" where
  "dict_get d k dflt = (case map_of d k of None \<Rightarrow> dflt | Some v \<Rightarrow> v)"

text \<open>\<open>type(v).__name__\<close>, as it appears in the message of an \<open>AttributeError\<close>.\<close>

fun type_name :: "json \<Rightarrow> string" where
  "type_name JNull = ''NoneType''"
| "type_name (JBool _) = ''bool''"
| "type_name (JInt _) = ''int''"
| "type_name (JFloat _) = ''float''"
| "type_name (JStr _) = ''str''"
| "type_name (JList _) = ''list''"
| "type_name (JObj _) = ''dict''"

definition no_attribute :: "json \<Rightarrow> string \<Rightarrow> py_exception" where
  "no_attribute v attr =
     AttributeError ([CHR 0x27] @ type_name v @ [CHR 0x27] @ '' object has no attribute '' @
                     [CHR 0x27] @ attr @ [CHR 0x27])"

text \<open>\<open>v.get(k, default)\<close> on an arbitrary JSON value: only a dict has \<open>get\<close>.\<close>

fun py_get :: "json \<Rightarrow> string \<Rightarrow> json \<Rightarrow> py_exception + json" where
  "py_get (JObj d) k dflt = Inr (dict_get d k dflt)"
| "py_get v k dflt = Inl (no_attribute v ''get'')"

text \<open>
  Library functions the code calls and that are not part of the repository are parameters:
  \<open>json.dumps(_, indent=2)\<close>, \<open>json.loads\<close> (\<open>Inl m\<close> is a \<open>JSONDecodeError\<close> with
  message \<open>m\<close>), the first group of the first match of the fenced-block regular expression
  (\<open>None\<close> when \<open>re.search\<close> finds nothing), and the text an f-string inserts for a
  value that is not a \<open>str\<close>.
\<close>

record pylib =
  json_dumps :: "json \<Rightarrow> string"
  json_loads :: "string \<Rightarrow> string + json"
  fence_search :: "string \<Rightarrow> string option"
  format_value :: "json \<Rightarrow> string"

text \<open>\<open>core/config.py\<close>: the settings the backend reads, with their defaults.\<close>

record settings =
  DEFAULT_AI_BACKEND :: string
  AI_TIMEOUT :: int
  AI_RETRY_ATTEMPTS :: int

definition default_settings :: settings where
  "default_settings =
     \<lparr>DEFAULT_AI_BACKEND = ''claude'', AI_TIMEOUT = 120, AI_RETRY_ATTEMPTS = 3\<rparr>"

section \<open>\<open>services/ai_backends.py\<close>\<close>

subsection \<open>\<open>ClaudeCodeBackend._build_prompt\<close>\<close>

text \<open>
  The f-string is the concatenation of four fixed pieces of text and three inserted values:
  the dumped persona profile, \<open>document_text[:8000]\<close> and the profile's role. The
  doubled braces of the f-string are single braces in the text; the one character of the
  template outside ASCII, the dash in the role instruction, is \<open>CHR 0x97\<close>.
\<close>

definition prompt_head :: string where
  "prompt_head =
     ''<persona>\<newline>''"

definition prompt_role_instruction :: string where
  "prompt_role_instruction =
     ''\<newline>'' @
     ''</persona>\<newline>'' @
     ''\<newline>'' @
     ''<role_instruction>\<newline>'' @
     ''You are embodying the persona described above. You are attending a marketing review roundtable. Your job is to critically evaluate the following marketing content from your professional perspective. Be direct. Be specific. Do not soften your feedback. The team wants honest, constructive criticism that will make their marketing better '' @ [CHR 0x97] @ '' not validation.\<newline>'' @
     ''</role_instruction>\<newline>'' @
     ''\<newline>'' @
     ''<marketing_content>\<newline>''"

definition prompt_rubric :: string where
  "prompt_rubric =
     ''  <!-- Limit to avoid token limits -->\<newline>'' @
     ''</marketing_content>\<newline>'' @
     ''\<newline>'' @
     ''<evaluation_framework>\<newline>'' @
     ''Score each dimension 1-10 and provide specific commentary:\<newline>'' @
     ''1. Relevance to my role: Does this speak to my actual priorities and pain points?\<newline>'' @
     ''2. Technical credibility: Is it accurate? Does it avoid buzzword-stuffing?\<newline>'' @
     ''3. Differentiation: Can I tell how this is different from competitors?\<newline>'' @
     ''4. Actionability: Do I know what to do next after reading this?\<newline>'' @
     ''5. Trust signals: Does this build or erode my trust? Why?\<newline>'' @
     ''6. Language fit: Does this sound like it was written by someone who understands my world?\<newline>'' @
     ''</evaluation_framework>\<newline>'' @
     ''\<newline>'' @
     ''<output_format>\<newline>'' @
     ''Respond in this exact JSON structure:\<newline>'' @
     ''{\<newline>'' @
     ''  \"persona_role\": \"''"

definition prompt_tail :: string where
  "prompt_tail =
     ''\",\<newline>'' @
     ''  \"overall_score\": <1-10>,\<newline>'' @
     ''  \"dimension_scores\": {\<newline>'' @
     ''    \"relevance\": {\"score\": <1-10>, \"commentary\": \"...\"},\<newline>'' @
     ''    \"technical_credibility\": {\"score\": <1-10>, \"commentary\": \"...\"},\<newline>'' @
     ''    \"differentiation\": {\"score\": <1-10>, \"commentary\": \"...\"},\<newline>'' @
     ''    \"actionability\": {\"score\": <1-10>, \"commentary\": \"...\"},\<newline>'' @
     ''    \"trust_signals\": {\"score\": <1-10>, \"commentary\": \"...\"},\<newline>'' @
     ''    \"language_fit\": {\"score\": <1-10>, \"commentary\": \"...\"}\<newline>'' @
     ''  },\<newline>'' @
     ''  \"top_3_issues\": [\<newline>'' @
     ''    {\"issue\": \"...\", \"specific_example_from_content\": \"...\", \"suggested_rewrite\": \"...\"},\<newline>'' @
     ''    {\"issue\": \"...\", \"specific_example_from_content\": \"...\", \"suggested_rewrite\": \"...\"},\<newline>'' @
     ''    {\"issue\": \"...\", \"specific_example_from_content\": \"...\", \"suggested_rewrite\": \"...\"}\<newline>'' @
     ''  ],\<newline>'' @
     ''  \"what_works_well\": [\"...\", \"...\"],\<newline>'' @
     ''  \"overall_verdict\": \"Would I engage further based on this content? Why or why not?\",\<newline>'' @
     ''  \"rewritten_headline_suggestion\": \"...\"\<newline>'' @
     ''}\<newline>'' @
     ''</output_format>\<newline>'' @
     ''\<newline>'' @
     ''Respond with ONLY the JSON. No markdown code blocks, no explanations, just valid JSON.''"

text \<open>The text an f-string inserts for a value: a \<open>str\<close> as it is.\<close>

definition fstring_value :: "pylib \<Rightarrow> json \<Rightarrow> string" where
  "fstring_value lib v = (case v of JStr s \<Rightarrow> s | _ \<Rightarrow> format_value lib v)"

definition build_prompt :: "pylib \<Rightarrow> pydict \<Rightarrow> string \<Rightarrow> string" where
  "build_prompt lib persona_profile document_text =
     prompt_head @ json_dumps lib (JObj persona_profile) @
     prompt_role_instruction @ take 8000 document_text @
     prompt_rubric @ fstring_value lib (dict_get persona_profile ''role'' (JStr ''Unknown'')) @
     prompt_tail"

subsection \<open>\<open>ClaudeCodeBackend.run_analysis\<close>\<close>

text \<open>
  What one pass through the \<open>try\<close> block meets outside the program: either
  \<open>create_subprocess_exec\<close> or the awaited \<open>communicate\<close> raises (\<open>TimeoutError\<close> when
  \<open>wait_for\<close> gives up after \<open>AI_TIMEOUT\<close> seconds, an \<open>OSError\<close> when the command
  cannot be started), or the process ends with a return code, its decoded standard output
  and its decoded standard error (\<open>decode\<close> is taken to succeed; an empty standard error
  is the false one of \<open>if stderr\<close>).
\<close>

datatype process_outcome =
    Raised py_exception
  | Exited int string string

text \<open>The body of the \<open>try\<close> block: the result it returns or the exception it raises.\<close>

definition attempt_body :: "pylib \<Rightarrow> process_outcome \<Rightarrow> py_exception + json" where
  "attempt_body lib outcome =
     (case outcome of
        Raised e \<Rightarrow> Inl e
      | Exited returncode stdout stderr \<Rightarrow>
          if returncode \<noteq> 0 then
            Inl (Exception (''Claude Code failed: '' @
                            (if stderr \<noteq> [] then stderr else ''Unknown error'')))
          else
            (case json_loads lib stdout of
               Inr result \<Rightarrow> Inr result
             | Inl _ \<Rightarrow>
                 (case fence_search lib stdout of
                    Some group1 \<Rightarrow>
                      (case json_loads lib group1 of
                         Inr result \<Rightarrow> Inr result
                       | Inl m \<Rightarrow> Inl (JSONDecodeError m))
                  | None \<Rightarrow> Inl (Exception ''Could not parse JSON response''))))"

text \<open>
  What the backend does to the outside world, in order: one \<open>Invoke\<close> per pass through the
  \<open>try\<close> block (the command line carries the prompt), one \<open>Sleep\<close> per
  \<open>asyncio.sleep\<close>, with its seconds.
\<close>

datatype event = Invoke string | Sleep nat

text \<open>
  The loop \<open>for attempt in range(settings.AI_RETRY_ATTEMPTS)\<close> from index \<open>attempt\<close> on,
  with the statement after the loop. \<open>env i\<close> is what attempt \<open>i\<close> meets. The handler of
  \<open>asyncio.TimeoutError\<close> comes first and holds no sleep; the handler of \<open>Exception\<close>
  takes every other exception of the body and sleeps \<open>2 ** attempt\<close> seconds unless the
  attempt was the last.
\<close>

function run_analysis_loop ::
  "pylib \<Rightarrow> int \<Rightarrow> string \<Rightarrow> (nat \<Rightarrow> process_outcome) \<Rightarrow> nat \<Rightarrow> (py_exception + json) \<times> event list"
where
  "run_analysis_loop lib retry_attempts prompt env attempt =
     (if int attempt < retry_attempts then
        (case attempt_body lib (env attempt) of
           Inr result \<Rightarrow> (Inr result, [Invoke prompt])
         | Inl e \<Rightarrow>
             if e = TimeoutError then
               (if int attempt = retry_attempts - 1 then
                  (Inl (Exception ''Analysis timed out after all retries''), [Invoke prompt])
                else
                  (case run_analysis_loop lib retry_attempts prompt env (Suc attempt) of
                     (r, evs) \<Rightarrow> (r, Invoke prompt # evs)))
             else
               (if int attempt = retry_attempts - 1 then
                  (Inl e, [Invoke prompt])
                else
                  (case run_analysis_loop lib retry_attempts prompt env (Suc attempt) of
                     (r, evs) \<Rightarrow> (r, Invoke prompt # Sleep (2 ^ attempt) # evs))))
      else (Inl (Exception ''Failed after all retries''), []))"
  by pat_completeness auto
termination
  by (relation "measure (\<lambda>(lib, retry_attempts, prompt, env, attempt). nat (retry_attempts - int attempt))")
     auto

declare run_analysis_loop.simps [simp del]

definition run_analysis ::
  "pylib \<Rightarrow> settings \<Rightarrow> pydict \<Rightarrow> string \<Rightarrow> (nat \<Rightarrow> process_outcome) \<Rightarrow> (py_exception + json) \<times> event list"
where
  "run_analysis lib cfg persona_profile document_text env =
     run_analysis_loop lib (AI_RETRY_ATTEMPTS cfg)
       (build_prompt lib persona_profile document_text) env 0"

text \<open>
  The three backend classes, and the service's \<open>self.backend\<close>, which is \<open>None\<close> until
  \<open>initialize_backend\<close> has run. \<open>CodexBackend\<close> and \<open>OpenCodeBackend\<close> raise
  \<open>NotImplementedError\<close>; calling \<open>run_analysis\<close> on \<open>None\<close> raises \<open>AttributeError\<close>.
\<close>

datatype backend = ClaudeCodeBackend | CodexBackend | OpenCodeBackend

fun backend_run_analysis ::
  "pylib \<Rightarrow> settings \<Rightarrow> backend option \<Rightarrow> pydict \<Rightarrow> string \<Rightarrow> (nat \<Rightarrow> process_outcome)
     \<Rightarrow> (py_exception + json) \<times> event list"
where
  "backend_run_analysis lib cfg (Some ClaudeCodeBackend) profile document_text env =
     run_analysis lib cfg profile document_text env"
| "backend_run_analysis lib cfg (Some CodexBackend) profile document_text env =
     (Inl (NotImplementedError ''Codex backend not yet implemented''), [])"
| "backend_run_analysis lib cfg (Some OpenCodeBackend) profile document_text env =
     (Inl (NotImplementedError ''OpenCode backend not yet implemented''), [])"
| "backend_run_analysis lib cfg None profile document_text env =
     (Inl (no_attribute JNull ''run_analysis''), [])"

section \<open>\<open>models/models.py\<close>: the rows the service reads and writes\<close>

text \<open>
  Of each table the columns the analysis service touches, and \<open>completed_at\<close> of
  \<open>Analysis\<close>. A column that may be NULL and holds text or a time is an \<open>option\<close>; a
  JSON column holds \<open>JNull\<close> when it is NULL.
\<close>

record persona_profile =
  p_id :: string
  p_name :: string
  p_role :: string
  p_is_system :: bool
  p_is_custom :: bool
  p_created_by_email :: "string option"
  p_profile_json :: pydict

record session_row =
  s_id :: string
  s_status :: string

record analysis =
  a_session_id :: string
  a_persona_id :: string
  a_status :: string
  score_json :: json
  top_issues_json :: json
  rewritten_suggestions_json :: json
  error_message :: "string option"
  completed_at :: "nat option"

text \<open>
  The database is the three tables, each a list of rows in insertion order. An ORM object
  is the position of its row, so that assigning to an attribute of the object is an update
  of the list at that position. The store the service works on is the current contents
  together with the log of what each \<open>self.db.commit()\<close> made visible to other readers.
  A commit succeeds: a database that fails is outside the model, and so are the calls of
  the logger.
\<close>

record database =
  sessions :: "session_row list"
  persona_profiles :: "persona_profile list"
  analyses :: "analysis list"

record store =
  db :: database
  commits :: "database list"

definition commit :: "store \<Rightarrow> store" where
  "commit st = st\<lparr>commits := commits st @ [db st]\<rparr>"

definition update_analysis :: "nat \<Rightarrow> (analysis \<Rightarrow> analysis) \<Rightarrow> store \<Rightarrow> store" where
  "update_analysis i f st =
     st\<lparr>db := (db st)\<lparr>analyses := (analyses (db st))[i := f (analyses (db st) ! i)]\<rparr>\<rparr>"

definition set_session_status :: "nat \<Rightarrow> string \<Rightarrow> store \<Rightarrow> store" where
  "set_session_status i v st =
     st\<lparr>db := (db st)\<lparr>sessions := (sessions (db st))[i := (sessions (db st) ! i)\<lparr>s_status := v\<rparr>]\<rparr>\<rparr>"

text \<open>\<open>self.db.add(analysis)\<close>: the new row goes to the end of the table.\<close>

definition db_add :: "analysis \<Rightarrow> store \<Rightarrow> store" where
  "db_add a st = st\<lparr>db := (db st)\<lparr>analyses := analyses (db st) @ [a]\<rparr>\<rparr>"

text \<open>\<open>query.filter(P).first()\<close>: the position of the first row that satisfies the filter.\<close>

fun first_index :: "('a \<Rightarrow> bool) \<Rightarrow> 'a list \<Rightarrow> nat option" where
  "first_index P [] = None"
| "first_index P (x # xs) = (if P x then Some 0 else map_option Suc (first_index P xs))"

text \<open>\<open>Analysis(session_id=..., persona_id=..., status="pending")\<close>: every other column
  is NULL.\<close>

definition new_analysis :: "string \<Rightarrow> string \<Rightarrow> analysis" where
  "new_analysis session_id persona_id =
     \<lparr>a_session_id = session_id, a_persona_id = persona_id, a_status = ''pending'',
      score_json = JNull, top_issues_json = JNull, rewritten_suggestions_json = JNull,
      error_message = None, completed_at = None\<rparr>"

section \<open>\<open>services/persona_service.py\<close>: \<open>PersonaService.get_persona\<close>\<close>

text \<open>The personas are only read, so the object is the row itself. An empty
  \<open>user_email\<close> is as false as \<open>None\<close>.\<close>

definition get_persona :: "database \<Rightarrow> string \<Rightarrow> string option \<Rightarrow> persona_profile option" where
  "get_persona d persona_id user_email =
     find (\<lambda>p. p_id p = persona_id \<and>
                (case user_email of
                   Some e \<Rightarrow> if e \<noteq> [] then p_is_system p \<or> p_created_by_email p = Some e
                             else p_is_system p
                 | None \<Rightarrow> p_is_system p))
          (persona_profiles d)"

section \<open>\<open>services/analysis_service.py\<close>\<close>

text \<open>The dict a unit's run is reported with: \<open>result\<close> is present on success,
  \<open>error\<close> on failure.\<close>

record unit_result =
  r_persona_id :: string
  r_persona_name :: string
  r_status :: string
  r_result :: "json option"
  r_error :: "string option"

text \<open>The dict \<open>analyze_document\<close> returns.\<close>

record job_outcome =
  o_session_id :: string
  o_total_personas :: nat
  o_completed :: nat
  o_failed :: nat
  o_results :: "unit_result list"

subsection \<open>\<open>_run_sequential_analyses\<close>\<close>

text \<open>
  The assignments that record a result on the analysis at position \<open>i\<close>, up to the commit
  that follows them; the two \<open>try\<close> blocks of the service hold the same lines. Each
  \<open>result.get\<close> may raise, and the assignments made before that stay on the object:
  \<open>Some e\<close> is the exception that left the lines, \<open>None\<close> their normal end.
\<close>

definition record_result :: "nat \<Rightarrow> json \<Rightarrow> store \<Rightarrow> py_exception option \<times> store" where
  "record_result i result st =
     (let st2 = update_analysis i (\<lambda>a. a\<lparr>a_status := ''completed''\<rparr>) st in
      (case py_get result ''dimension_scores'' JNull of
         Inl e \<Rightarrow> (Some e, st2)
       | Inr scores \<Rightarrow>
          (let st3 = update_analysis i (\<lambda>a. a\<lparr>score_json := scores\<rparr>) st2 in
           (case py_get result ''top_3_issues'' JNull of
              Inl e \<Rightarrow> (Some e, st3)
            | Inr issues \<Rightarrow>
               (let st4 = update_analysis i (\<lambda>a. a\<lparr>top_issues_json := issues\<rparr>) st3 in
                (case py_get result ''what_works_well'' (JList []) of
                   Inl e \<Rightarrow> (Some e, st4)
                 | Inr works \<Rightarrow>
                    (case py_get result ''overall_verdict'' (JStr []) of
                       Inl e \<Rightarrow> (Some e, st4)
                     | Inr verdict \<Rightarrow>
                        (case py_get result ''rewritten_headline_suggestion'' (JStr []) of
                           Inl e \<Rightarrow> (Some e, st4)
                         | Inr headline \<Rightarrow>
                            (None,
                             commit (update_analysis i
                               (\<lambda>a. a\<lparr>rewritten_suggestions_json :=
                                         JObj [(''what_works_well'', works),
                                               (''overall_verdict'', verdict),
                                               (''rewritten_headline'', headline)]\<rparr>)
                               st4))))))))))"

text \<open>
  The \<open>try\<close> block of one iteration, for the unit at position \<open>i\<close> and its persona: the
  report it appends, or the exception that leaves it, and the store at that moment.
\<close>

definition try_analysis ::
  "pylib \<Rightarrow> settings \<Rightarrow> backend option \<Rightarrow> (nat \<Rightarrow> process_outcome) \<Rightarrow> nat \<times> persona_profile \<Rightarrow> string
     \<Rightarrow> store \<Rightarrow> (py_exception + unit_result) \<times> store"
where
  "try_analysis lib cfg backend env unit document_text st =
     (let st1 = commit (update_analysis (fst unit) (\<lambda>a. a\<lparr>a_status := ''running''\<rparr>) st);
          profile_data = p_profile_json (snd unit)
      in (case fst (backend_run_analysis lib cfg backend profile_data document_text env) of
            Inl e \<Rightarrow> (Inl e, st1)
          | Inr result \<Rightarrow>
             (case record_result (fst unit) result st1 of
                (Some e, st5) \<Rightarrow> (Inl e, st5)
              | (None, st5) \<Rightarrow>
                 (Inr \<lparr>r_persona_id = p_id (snd unit), r_persona_name = p_name (snd unit),
                       r_status = ''completed'', r_result = Some result, r_error = None\<rparr>,
                  st5))))"

text \<open>One iteration of the loop: the \<open>try\<close> block, and the handler of \<open>Exception\<close> when
  the block raised.\<close>

definition run_iteration ::
  "pylib \<Rightarrow> settings \<Rightarrow> backend option \<Rightarrow> (nat \<Rightarrow> process_outcome) \<Rightarrow> nat \<times> persona_profile \<Rightarrow> string
     \<Rightarrow> store \<Rightarrow> unit_result \<times> store"
where
  "run_iteration lib cfg backend env unit document_text st =
     (case try_analysis lib cfg backend env unit document_text st of
        (Inr report, st') \<Rightarrow> (report, st')
      | (Inl e, st') \<Rightarrow>
          (\<lparr>r_persona_id = p_id (snd unit), r_persona_name = p_name (snd unit),
            r_status = ''failed'', r_result = None, r_error = Some (str_exc e)\<rparr>,
           commit (update_analysis (fst unit)
                     (\<lambda>a. a\<lparr>a_status := ''failed'', error_message := Some (str_exc e)\<rparr>) st')))"

text \<open>The loop over the units. \<open>envs k\<close> is what the \<open>k\<close>-th call of the backend meets,
  counted from the call of the function's caller.\<close>

fun run_sequential_analyses ::
  "pylib \<Rightarrow> settings \<Rightarrow> backend option \<Rightarrow> (nat \<Rightarrow> nat \<Rightarrow> process_outcome) \<Rightarrow> nat
     \<Rightarrow> (nat \<times> persona_profile) list \<Rightarrow> string \<Rightarrow> store \<Rightarrow> unit_result list \<times> store"
where
  "run_sequential_analyses lib cfg backend envs k [] document_text st = ([], st)"
| "run_sequential_analyses lib cfg backend envs k (unit # rest) document_text st =
     (case run_iteration lib cfg backend (envs k) unit document_text st of
        (report, st') \<Rightarrow>
          (case run_sequential_analyses lib cfg backend envs (Suc k) rest document_text st' of
             (reports, st'') \<Rightarrow> (report # reports, st'')))"

definition run_parallel_analyses ::
  "pylib \<Rightarrow> settings \<Rightarrow> backend option \<Rightarrow> (nat \<Rightarrow> nat \<Rightarrow> process_outcome) \<Rightarrow> nat
     \<Rightarrow> (nat \<times> persona_profile) list \<Rightarrow> string \<Rightarrow> store \<Rightarrow> unit_result list \<times> store"
where
  "run_parallel_analyses = run_sequential_analyses"

subsection \<open>\<open>analyze_document\<close>\<close>

text \<open>The loop that resolves the selected ids: an id without a persona is passed over.\<close>

fun resolve_personas :: "database \<Rightarrow> string list \<Rightarrow> persona_profile list" where
  "resolve_personas d [] = []"
| "resolve_personas d (persona_id # rest) =
     (case get_persona d persona_id None of
        Some persona \<Rightarrow> persona # resolve_personas d rest
      | None \<Rightarrow> resolve_personas d rest)"

text \<open>The loop that creates the analysis records: the pairs \<open>(analysis, persona)\<close> it
  collects, and the store with the new rows.\<close>

fun create_analyses ::
  "string \<Rightarrow> persona_profile list \<Rightarrow> store \<Rightarrow> (nat \<times> persona_profile) list \<times> store"
where
  "create_analyses session_id [] st = ([], st)"
| "create_analyses session_id (persona # rest) st =
     (let i = length (analyses (db st));
          st' = db_add (new_analysis session_id (p_id persona)) st
      in case create_analyses session_id rest st' of
           (units, st'') \<Rightarrow> ((i, persona) # units, st''))"

text \<open>The session status computed from the reports of the run.\<close>

definition status_of_results :: "unit_result list \<Rightarrow> string" where
  "status_of_results results =
     (let failed_count = length (filter (\<lambda>r. r_status r = ''failed'') results)
      in if failed_count = length results then ''failed''
         else if failed_count > 0 then ''partial''
         else ''completed'')"

definition analyze_document ::
  "pylib \<Rightarrow> settings \<Rightarrow> backend option \<Rightarrow> (nat \<Rightarrow> nat \<Rightarrow> process_outcome) \<Rightarrow> string \<Rightarrow> string
     \<Rightarrow> string list \<Rightarrow> bool \<Rightarrow> store \<Rightarrow> (py_exception + job_outcome) \<times> store"
where
  "analyze_document lib cfg backend envs session_id document_text selected_persona_ids
       sequential st =
     (case first_index (\<lambda>s. s_id s = session_id) (sessions (db st)) of
        None \<Rightarrow> (Inl (ValueError (''Session not found: '' @ session_id)), st)
      | Some session \<Rightarrow>
          let st1 = commit (set_session_status session ''analyzing'' st);
              personas = resolve_personas (db st1) selected_persona_ids
          in if personas = [] then
               (Inl (ValueError ''No valid personas selected''),
                commit (set_session_status session ''failed'' st1))
             else
               (case create_analyses session_id personas st1 of
                  (units, st2) \<Rightarrow>
                    (case (if sequential then run_sequential_analyses
                           else run_parallel_analyses)
                            lib cfg backend envs 0 units document_text (commit st2) of
                       (results, st3) \<Rightarrow>
                         let failed_count =
                               length (filter (\<lambda>r. r_status r = ''failed'') results);
                             completed_count =
                               length (filter (\<lambda>r. r_status r = ''completed'') results);
                             st4 = commit (set_session_status session
                                             (status_of_results results) st3)
                         in (Inr \<lparr>o_session_id = session_id,
                                  o_total_personas = length personas,
                                  o_completed = completed_count,
                                  o_failed = failed_count,
                                  o_results = results\<rparr>, st4))))"

subsection \<open>\<open>_update_session_status\<close>\<close>

text \<open>The session status computed from the analyses of the session; \<open>current\<close> stays when
  no branch assigns.\<close>

definition status_of_analyses :: "string \<Rightarrow> analysis list \<Rightarrow> string" where
  "status_of_analyses current rows =
     (let failed_count = length (filter (\<lambda>a. a_status a = ''failed'') rows);
          completed_count = length (filter (\<lambda>a. a_status a = ''completed'') rows)
      in if failed_count = length rows then ''failed''
         else if failed_count > 0 then ''partial''
         else if completed_count = length rows then ''completed''
         else current)"

definition update_session_status :: "string \<Rightarrow> store \<Rightarrow> store" where
  "update_session_status session_id st =
     (case first_index (\<lambda>s. s_id s = session_id) (sessions (db st)) of
        None \<Rightarrow> st
      | Some session \<Rightarrow>
          let rows = filter (\<lambda>a. a_session_id a = session_id) (analyses (db st))
          in if rows = [] then st
             else commit (set_session_status session
                            (status_of_analyses (s_status (sessions (db st) ! session)) rows)
                            st))"

subsection \<open>\<open>retry_failed_analysis\<close>\<close>

text \<open>The \<open>try\<close> block of the retry, for the analysis at position \<open>i\<close>.\<close>

definition try_retry ::
  "pylib \<Rightarrow> settings \<Rightarrow> backend option \<Rightarrow> (nat \<Rightarrow> process_outcome) \<Rightarrow> string \<Rightarrow> nat
     \<Rightarrow> persona_profile \<Rightarrow> string \<Rightarrow> store \<Rightarrow> (py_exception + unit_result) \<times> store"
where
  "try_retry lib cfg backend env session_id i persona document_text st =
     (let st1 = commit (update_analysis i
                          (\<lambda>a. a\<lparr>a_status := ''running'', error_message := None\<rparr>) st);
          profile_data = p_profile_json persona
      in (case fst (backend_run_analysis lib cfg backend profile_data document_text env) of
            Inl e \<Rightarrow> (Inl e, st1)
          | Inr result \<Rightarrow>
             (case record_result i result st1 of
                (Some e, st5) \<Rightarrow> (Inl e, st5)
              | (None, st5) \<Rightarrow>
                 (Inr \<lparr>r_persona_id = p_id persona, r_persona_name = p_name persona,
                       r_status = ''completed'', r_result = Some result, r_error = None\<rparr>,
                  update_session_status session_id st5))))"

definition retry_failed_analysis ::
  "pylib \<Rightarrow> settings \<Rightarrow> backend option \<Rightarrow> (nat \<Rightarrow> process_outcome) \<Rightarrow> string \<Rightarrow> string \<Rightarrow> string
     \<Rightarrow> store \<Rightarrow> (py_exception + unit_result) \<times> store"
where
  "retry_failed_analysis lib cfg backend env session_id persona_id document_text st =
     (case first_index (\<lambda>a. a_session_id a = session_id \<and> a_persona_id a = persona_id)
             (analyses (db st)) of
        None \<Rightarrow>
          (Inl (ValueError (''Analysis not found for session '' @ session_id @
                            '', persona '' @ persona_id)), st)
      | Some i \<Rightarrow>
          if a_status (analyses (db st) ! i) \<noteq> ''failed'' then
            (Inl (ValueError ''Analysis is not in failed state''), st)
          else
            (case get_persona (db st) persona_id None of
               None \<Rightarrow> (Inl (ValueError (''Persona not found: '' @ persona_id)), st)
             | Some persona \<Rightarrow>
                 (case try_retry lib cfg backend env session_id i persona document_text st of
                    (Inr report, st') \<Rightarrow> (Inr report, st')
                  | (Inl e, st') \<Rightarrow>
                      (Inr \<lparr>r_persona_id = p_id persona, r_persona_name = p_name persona,
                            r_status = ''failed'', r_result = None,
                            r_error = Some (str_exc e)\<rparr>,
                       commit (update_analysis i
                                 (\<lambda>a. a\<lparr>a_status := ''failed'',
                                          error_message := Some (str_exc e)\<rparr>) st')))))"

section \<open>Vocabulary of the statements\<close>

text \<open>The number of invocations of the external command in a trace, and the seconds
  slept, in order.\<close>

fun is_invoke :: "event \<Rightarrow> bool" where
  "is_invoke (Invoke _) = True"
| "is_invoke (Sleep _) = False"

definition invocations :: "event list \<Rightarrow> nat" where
  "invocations evs = length (filter is_invoke evs)"

fun sleeps :: "event list \<Rightarrow> nat list" where
  "sleeps [] = []"
| "sleeps (Invoke _ # evs) = sleeps evs"
| "sleeps (Sleep n # evs) = n # sleeps evs"

text \<open>A unit carries a result when one of its three result columns is not NULL.\<close>

definition has_result :: "analysis \<Rightarrow> bool" where
  "has_result a =
     (score_json a \<noteq> JNull \<or> top_issues_json a \<noteq> JNull \<or> rewritten_suggestions_json a \<noteq> JNull)"

text \<open>
  What a run of the backend means for the unit: the dict whose entries are recorded, or the
  exception the handler stores, which is the backend's own or the \<open>AttributeError\<close> of
  \<open>result.get\<close> on a result that is not a dict.
\<close>

fun unit_outcome :: "py_exception + json \<Rightarrow> py_exception + pydict" where
  "unit_outcome (Inl e) = Inl e"
| "unit_outcome (Inr (JObj d)) = Inr d"
| "unit_outcome (Inr v) = Inl (no_attribute v ''get'')"

text \<open>The unit after the assignments of a recorded result, and after those of the
  exception handler.\<close>

definition stored_result :: "pydict \<Rightarrow> analysis \<Rightarrow> analysis" where
  "stored_result d a =
     a\<lparr>a_status := ''completed'',
       score_json := dict_get d ''dimension_scores'' JNull,
       top_issues_json := dict_get d ''top_3_issues'' JNull,
       rewritten_suggestions_json :=
         JObj [(''what_works_well'', dict_get d ''what_works_well'' (JList [])),
               (''overall_verdict'', dict_get d ''overall_verdict'' (JStr [])),
               (''rewritten_headline'', dict_get d ''rewritten_headline_suggestion'' (JStr []))]\<rparr>"

definition stored_failure :: "py_exception \<Rightarrow> analysis \<Rightarrow> analysis" where
  "stored_failure e a = a\<lparr>a_status := ''failed'', error_message := Some (str_exc e)\<rparr>"

text \<open>The unit at the end of an iteration that found it as \<open>a\<close>, and the report of the
  iteration, for an outcome of the backend's run.\<close>

fun unit_final :: "py_exception + pydict \<Rightarrow> analysis \<Rightarrow> analysis" where
  "unit_final (Inr d) a = stored_result d a"
| "unit_final (Inl e) a = stored_failure e a"

fun unit_report :: "persona_profile \<Rightarrow> py_exception + pydict \<Rightarrow> unit_result" where
  "unit_report persona (Inr d) =
     \<lparr>r_persona_id = p_id persona, r_persona_name = p_name persona, r_status = ''completed'',
      r_result = Some (JObj d), r_error = None\<rparr>"
| "unit_report persona (Inl e) =
     \<lparr>r_persona_id = p_id persona, r_persona_name = p_name persona, r_status = ''failed'',
      r_result = None, r_error = Some (str_exc e)\<rparr>"

text \<open>The outcome, for its unit, of the \<open>k\<close>-th run of the backend in a call of the
  service, made for \<open>persona\<close>.\<close>

definition outcome_of ::
  "pylib \<Rightarrow> settings \<Rightarrow> backend option \<Rightarrow> (nat \<Rightarrow> nat \<Rightarrow> process_outcome) \<Rightarrow> string
     \<Rightarrow> persona_profile \<Rightarrow> nat \<Rightarrow> py_exception + pydict"
where
  "outcome_of lib cfg backend envs document_text persona k =
     unit_outcome (fst (backend_run_analysis lib cfg backend (p_profile_json persona)
                          document_text (envs k)))"

text \<open>
  The states of a unit in which result and error exclude each other as the status says:
  a completed unit has a result and no error, a failed one an error and no result, a
  pending or running one neither. A database is in order when all its units are, a store
  when its database and every database it has committed are.
\<close>

definition unit_ok :: "analysis \<Rightarrow> bool" where
  "unit_ok a =
     ((a_status a = ''completed'' \<and> has_result a \<and> error_message a = None) \<or>
      (a_status a = ''failed'' \<and> \<not> has_result a \<and> error_message a \<noteq> None) \<or>
      ((a_status a = ''pending'' \<or> a_status a = ''running'') \<and>
         \<not> has_result a \<and> error_message a = None))"

definition db_ok :: "database \<Rightarrow> bool" where
  "db_ok d = list_all unit_ok (analyses d)"

definition store_ok :: "store \<Rightarrow> bool" where
  "store_ok st = (db_ok (db st) \<and> list_all db_ok (commits st))"

text \<open>
  The stores the service can be in between two calls. It starts without analyses and
  without commits. The two public operations of the service take it further, with any
  arguments, any backend and anything the external command may do;
  \<open>_run_sequential_analyses\<close> runs inside \<open>analyze_document\<close>, on the units that call has
  created. The other writers of the application (the persona and session endpoints, the
  cascade of a deletion) change sessions and personas and remove analyses, and never write
  to one.
\<close>

inductive reachable :: "store \<Rightarrow> bool" where
  initial: "analyses (db st) = [] \<Longrightarrow> commits st = [] \<Longrightarrow> reachable st"
| job: "reachable st \<Longrightarrow>
        reachable (snd (analyze_document lib cfg backend envs session_id document_text ids
                          sequential st))"
| retry: "reachable st \<Longrightarrow>
          reachable (snd (retry_failed_analysis lib cfg backend env session_id persona_id
                            document_text st))"
| other: "reachable st \<Longrightarrow> set (analyses d) \<subseteq> set (analyses (db st)) \<Longrightarrow>
          reachable \<lparr>db = d, commits = commits st @ [d]\<rparr>"

text \<open>A unit with neither a result nor an error, as a new one is.\<close>

definition clean :: "analysis \<Rightarrow> bool" where
  "clean a = (\<not> has_result a \<and> error_message a = None)"

section \<open>Concrete inputs\<close>

text \<open>
  A library whose \<open>json.loads\<close> reads the text \<open>{}\<close> as the empty object and nothing
  else, whose regular expression never matches; an external command that answers \<open>{}\<close>;
  one that times out \<open>k\<close> times and then answers \<open>{}\<close>; one system persona; a database
  with one session, that persona and no analysis.
\<close>

definition lib0 :: pylib where
  "lib0 = \<lparr>json_dumps = (\<lambda>v. ''{}''),
           json_loads = (\<lambda>s. if s = ''{}'' then Inr (JObj []) else Inl ''Expecting value''),
           fence_search = (\<lambda>s. None),
           format_value = (\<lambda>v. ''?'')\<rparr>"

definition answers :: "nat \<Rightarrow> process_outcome" where
  "answers attempt = Exited 0 ''{}'' []"

definition times_out :: "nat \<Rightarrow> nat \<Rightarrow> process_outcome" where
  "times_out k attempt = (if attempt < k then Raised TimeoutError else Exited 0 ''{}'' [])"

definition persona1 :: persona_profile where
  "persona1 = \<lparr>p_id = ''p1'', p_name = ''Dana'', p_role = ''CTO'', p_is_system = True,
               p_is_custom = False, p_created_by_email = None,
               p_profile_json = [(''id'', JStr ''p1''), (''role'', JStr ''CTO'')]\<rparr>"

definition db0 :: database where
  "db0 = \<lparr>sessions = [\<lparr>s_id = ''s1'', s_status = ''uploaded''\<rparr>],
          persona_profiles = [persona1],
          analyses = []\<rparr>"

definition store0 :: store where
  "store0 = \<lparr>db = db0, commits = []\<rparr>"



text \<open>An external command whose first answer is not JSON and whose later answers are
  \<open>{}\<close>.\<close>

definition garbled_once :: "nat \<Rightarrow> process_outcome" where
  "garbled_once attempt =
     (if attempt = 0 then Exited 0 ''I cannot answer.'' [] else Exited 0 ''{}'' [])"




text \<open>The store after a job for the persona \<open>p1\<close> whose every attempt has timed out.\<close>

definition store_after_timeouts :: store where
  "store_after_timeouts =
     snd (analyze_document lib0 default_settings (Some ClaudeCodeBackend) (\<lambda>k. times_out 3)
            ''s1'' ''Buy now.'' [''p1''] True store0)"

section \<open>Status aggregation\<close>





lemma filter_all_iff: "(length (filter P xs) = length xs) = (\<forall>x\<in>set xs. P x)"
proof (induction xs)
  case Nil
  show ?case by simp
next
  case (Cons x xs)
  have "length (filter P xs) \<le> length xs" by (rule length_filter_le)
  then have "length (filter P xs) \<noteq> Suc (length xs)" by linarith
  with Cons show ?case by simp
qed

lemma filter_none_iff: "(length (filter P xs) = 0) = (\<forall>x\<in>set xs. \<not> P x)"
  by (induction xs) auto


lemma status_of_results_terminal:
  assumes ne: "results \<noteq> []"
    and terminal: "\<forall>r\<in>set results. r_status r = ''completed'' \<or> r_status r = ''failed''"
  shows "((status_of_results results = ''completed'') =
            (\<forall>r\<in>set results. r_status r = ''completed''))
       \<and> ((status_of_results results = ''failed'') =
            (\<forall>r\<in>set results. r_status r = ''failed''))
       \<and> ((status_of_results results = ''partial'') =
            (\<not> (\<forall>r\<in>set results. r_status r = ''completed'') \<and>
             \<not> (\<forall>r\<in>set results. r_status r = ''failed'')))"
proof -
  let ?F = "length (filter (\<lambda>r. r_status r = ''failed'') results)"
  have F_all: "(?F = length results) = (\<forall>r\<in>set results. r_status r = ''failed'')"
    by (rule filter_all_iff)
  have "(?F = 0) = (\<forall>r\<in>set results. r_status r \<noteq> ''failed'')"
    by (rule filter_none_iff)
  also have "\<dots> = (\<forall>r\<in>set results. r_status r = ''completed'')"
    using terminal by auto
  finally have F_none: "(?F = 0) = (\<forall>r\<in>set results. r_status r = ''completed'')" .
  obtain r where r: "r \<in> set results"
    using ne by (cases results) auto
  have excl: "\<not> ((\<forall>r\<in>set results. r_status r = ''completed'') \<and>
                  (\<forall>r\<in>set results. r_status r = ''failed''))"
    using r by auto
  have unf: "status_of_results results =
      (if ?F = length results then ''failed''
       else if ?F > 0 then ''partial'' else ''completed'')"
    by (simp add: status_of_results_def)
  show ?thesis
  proof (cases "?F = length results")
    case True
    with F_all excl unf show ?thesis by auto
  next
    case notall: False
    show ?thesis
    proof (cases "?F = 0")
      case True
      with notall F_all F_none unf show ?thesis by auto
    next
      case False
      with notall F_all F_none unf show ?thesis by auto
    qed
  qed
qed

lemma first_index_Some:
  "first_index P xs = Some i \<Longrightarrow> i < length xs \<and> P (xs ! i) \<and> (\<forall>j<i. \<not> P (xs ! j))"
proof (induction xs arbitrary: i)
  case Nil
  then show ?case by simp
next
  case (Cons x xs)
  show ?case
  proof (cases "P x")
    case True
    with Cons.prems show ?thesis by simp
  next
    case False
    with Cons.prems obtain k where k: "first_index P xs = Some k" "i = Suc k"
      by auto
    from Cons.IH [OF k(1)] False k(2) show ?thesis
      by (auto simp: less_Suc_eq_0_disj)
  qed
qed

lemma first_index_None: "(first_index P xs = None) = (\<forall>x\<in>set xs. \<not> P x)"
  by (induction xs) auto



lemma db_commit [simp]: "db (commit st) = db st"
  by (simp add: commit_def)

lemma commits_commit [simp]: "commits (commit st) = commits st @ [db st]"
  by (simp add: commit_def)

lemma db_set_session_status [simp]:
  "db (set_session_status i v st) =
     (db st)\<lparr>sessions := (sessions (db st))[i := (sessions (db st) ! i)\<lparr>s_status := v\<rparr>]\<rparr>"
  by (simp add: set_session_status_def)

lemma commits_set_session_status [simp]: "commits (set_session_status i v st) = commits st"
  by (simp add: set_session_status_def)





section \<open>The retry loop of \<open>run_analysis\<close>\<close>

lemma loop_success:
  assumes "attempt_body lib (env attempt) = Inr result" and "int attempt < m"
  shows "run_analysis_loop lib m prompt env attempt = (Inr result, [Invoke prompt])"
  using assms by (subst run_analysis_loop.simps) simp

lemma loop_exhausted:
  assumes "\<not> int attempt < m"
  shows "run_analysis_loop lib m prompt env attempt = (Inl (Exception ''Failed after all retries''), [])"
  using assms by (subst run_analysis_loop.simps) simp

lemma loop_last_failure:
  assumes "attempt_body lib (env attempt) = Inl e" and "int attempt = m - 1"
  shows "run_analysis_loop lib m prompt env attempt =
           (Inl (if e = TimeoutError then Exception ''Analysis timed out after all retries'' else e),
            [Invoke prompt])"
  using assms by (subst run_analysis_loop.simps) simp

lemma loop_retry:
  assumes "attempt_body lib (env attempt) = Inl e" and "int attempt < m - 1"
  shows "run_analysis_loop lib m prompt env attempt =
           (fst (run_analysis_loop lib m prompt env (Suc attempt)),
            Invoke prompt # (if e = TimeoutError then [] else [Sleep (2 ^ attempt)]) @
            snd (run_analysis_loop lib m prompt env (Suc attempt)))"
  using assms by (subst run_analysis_loop.simps) (simp add: case_prod_unfold)

lemma invocations_Cons [simp]:
  "invocations (Invoke p # evs) = Suc (invocations evs)"
  "invocations (Sleep n # evs) = invocations evs"
  "invocations [] = 0"
  by (simp_all add: invocations_def)

lemma invocations_append [simp]: "invocations (xs @ ys) = invocations xs + invocations ys"
  by (simp add: invocations_def)

lemma sleeps_append [simp]: "sleeps (xs @ ys) = sleeps xs @ sleeps ys"
  by (induction xs rule: sleeps.induct) simp_all

lemma timeouts_trace:
  assumes "\<forall>i<k. attempt_body lib (env i) = Inl TimeoutError"
    and "attempt_body lib (env k) = Inr result"
    and "a \<le> k"
  shows "run_analysis_loop lib m prompt env a =
          (if int k < m then Inr result
           else if int a < m then Inl (Exception ''Analysis timed out after all retries'')
           else Inl (Exception ''Failed after all retries''),
           replicate (min (Suc k) (nat m) - a) (Invoke prompt))"
  using assms(3)
proof (induction "k - a" arbitrary: a)
  case 0
  then have ak: "a = k" by simp
  show ?case
  proof (cases "int k < m")
    case True
    then have "min (Suc k) (nat m) - k = Suc 0" by linarith
    with True assms(2) ak show ?thesis
      by (simp add: loop_success)
  next
    case False
    then have "min (Suc k) (nat m) - k = 0" by linarith
    with False ak show ?thesis
      by (simp add: loop_exhausted)
  qed
next
  case (Suc d)
  then have lt: "a < k" and d: "d = k - Suc a" and le: "Suc a \<le> k" by linarith+
  from assms(1) lt have body: "attempt_body lib (env a) = Inl TimeoutError" by simp
  note IH = Suc.hyps(1) [OF d le]
  consider (more) "int a < m - 1" | (last) "int a = m - 1" | (none) "\<not> int a < m"
    by linarith
  then show ?case
  proof cases
    case more
    then have "min (Suc k) (nat m) - a = Suc (min (Suc k) (nat m) - Suc a)"
      using lt by linarith
    with more IH show ?thesis
      by (simp add: loop_retry [where env=env and attempt=a, OF body more])
  next
    case last
    then have "min (Suc k) (nat m) - a = Suc 0" "\<not> int k < m" "int a < m"
      using lt by linarith+
    with last show ?thesis
      by (simp add: loop_last_failure [where env=env and attempt=a, OF body last])
  next
    case none
    then have "min (Suc k) (nat m) - a = 0" "\<not> int k < m"
      using lt by linarith+
    with none show ?thesis
      by (simp add: loop_exhausted)
  qed
qed

lemma attempt_body_times_out:
  "attempt_body lib0 (times_out k i) = (if i < k then Inl TimeoutError else Inr (JObj []))"
  by (simp add: attempt_body_def times_out_def lib0_def)

lemma timeouts_run_analysis:
  "run_analysis lib0 cfg profile document_text (times_out k) =
     (if int k < AI_RETRY_ATTEMPTS cfg then Inr (JObj [])
      else if 0 < AI_RETRY_ATTEMPTS cfg
           then Inl (Exception ''Analysis timed out after all retries'')
           else Inl (Exception ''Failed after all retries''),
      replicate (min (Suc k) (nat (AI_RETRY_ATTEMPTS cfg)))
        (Invoke (build_prompt lib0 profile document_text)))"
  unfolding run_analysis_def
  by (subst timeouts_trace [where k = k and result = "JObj []"])
     (simp_all add: attempt_body_times_out)

lemma sleeps_replicate_Invoke [simp]: "sleeps (replicate n (Invoke p)) = []"
  by (induction n) simp_all

lemma invocations_replicate_Invoke [simp]: "invocations (replicate n (Invoke p)) = n"
  by (induction n) simp_all

text \<open>
  C3. Retry trace. With the default three attempts and an external command that times out
  once and then answers, the evaluation succeeds after two invocations, as the claim says,
  but nothing is slept between them: the handler of the timeout holds no
  \<open>asyncio.sleep\<close>, where the claim has the sleeps \<open>[2^0]\<close>.
\<close>

theorem timeout_retry_has_no_backoff:
  "fst (run_analysis lib0 default_settings (p_profile_json persona1) ''Buy now.'' (times_out 1))
     = Inr (JObj [])
   \<and> invocations
        (snd (run_analysis lib0 default_settings (p_profile_json persona1) ''Buy now.'' (times_out 1)))
     = 2
   \<and> sleeps
        (snd (run_analysis lib0 default_settings (p_profile_json persona1) ''Buy now.'' (times_out 1)))
     = []"
  by (simp add: timeouts_run_analysis default_settings_def)

section \<open>Which failures are retried\<close>

lemma attempt_body_garbled_once:
  "attempt_body lib0 (garbled_once i) =
     (if i = 0 then Inl (Exception ''Could not parse JSON response'') else Inr (JObj []))"
  by (simp add: attempt_body_def garbled_once_def lib0_def)

text \<open>
  C4, as stated, fails: the first answer of the external command cannot be parsed, and the
  loop sleeps one second and invokes the command again, whose second answer it returns.
\<close>

theorem parse_failure_is_retried:
  "attempt_body lib0 (garbled_once 0) = Inl (Exception ''Could not parse JSON response'')
   \<and> run_analysis lib0 default_settings (p_profile_json persona1) ''Buy now.'' garbled_once =
       (Inr (JObj []),
        [Invoke (build_prompt lib0 (p_profile_json persona1) ''Buy now.''), Sleep 1,
         Invoke (build_prompt lib0 (p_profile_json persona1) ''Buy now.'')])"
proof -
  have b0: "attempt_body lib0 (garbled_once 0) = Inl (Exception ''Could not parse JSON response'')"
    by (simp add: attempt_body_garbled_once)
  have b1: "attempt_body lib0 (garbled_once (Suc 0)) = Inr (JObj [])"
    by (simp add: attempt_body_garbled_once)
  show ?thesis
    unfolding run_analysis_def default_settings_def
    by (simp add: b0 loop_retry [where env = garbled_once and attempt = 0, OF b0]
                  loop_success [where env = garbled_once and attempt = "Suc 0", OF b1])
qed

text \<open>
  C4, amended. Whatever exception leaves the \<open>try\<close> block of an attempt (a timeout, the
  exception for a non-zero return code, the ones for output that cannot be parsed, the
  error of a command that cannot be started), the loop goes on to the next attempt when the
  attempt was not the last one allowed: the result is that of the loop from the next
  attempt, with one more invocation. Only on the last attempt is the failure final.
\<close>

theorem retry_after_any_failure:
  assumes "attempt_body lib (env attempt) = Inl e"
  shows "(int attempt < retry_attempts - 1 \<longrightarrow>
            fst (run_analysis_loop lib retry_attempts prompt env attempt) =
              fst (run_analysis_loop lib retry_attempts prompt env (Suc attempt)) \<and>
            invocations (snd (run_analysis_loop lib retry_attempts prompt env attempt)) =
              Suc (invocations (snd (run_analysis_loop lib retry_attempts prompt env (Suc attempt)))))
       \<and> (int attempt = retry_attempts - 1 \<longrightarrow>
            run_analysis_loop lib retry_attempts prompt env attempt =
              (Inl (if e = TimeoutError then Exception ''Analysis timed out after all retries''
                    else e),
               [Invoke prompt]))"
  using loop_retry [where env = env and attempt = attempt, OF assms, of retry_attempts prompt]
    loop_last_failure [where env = env and attempt = attempt, OF assms, of retry_attempts prompt]
  by simp

theorem retry_after_any_failure_witness:
  "fst (run_analysis_loop lib0 3 ''prompt'' garbled_once 0) =
     fst (run_analysis_loop lib0 3 ''prompt'' garbled_once (Suc 0))
   \<and> invocations (snd (run_analysis_loop lib0 3 ''prompt'' garbled_once 0)) =
     Suc (invocations (snd (run_analysis_loop lib0 3 ''prompt'' garbled_once (Suc 0))))
   \<and> run_analysis_loop lib0 1 ''prompt'' garbled_once 0 =
       (Inl (Exception ''Could not parse JSON response''), [Invoke ''prompt''])"
proof -
  have b0: "attempt_body lib0 (garbled_once 0) = Inl (Exception ''Could not parse JSON response'')"
    by (simp add: attempt_body_garbled_once)
  from retry_after_any_failure [where env = garbled_once and attempt = 0, OF b0, of 3 "''prompt''"]
    retry_after_any_failure [where env = garbled_once and attempt = 0, OF b0, of 1 "''prompt''"]
  show ?thesis by simp
qed

section \<open>The prompt and the document\<close>

lemma build_prompt_take:
  "build_prompt lib persona_profile (take 8000 document_text) =
   build_prompt lib persona_profile document_text"
  by (simp add: build_prompt_def)

lemma loop_invokes_prompt:
  "Invoke p \<in> set (snd (run_analysis_loop lib m prompt env attempt)) \<Longrightarrow> p = prompt"
proof (induction lib m prompt env attempt rule: run_analysis_loop.induct)
  case (1 lib m prompt env attempt)
  show ?case
  proof (cases "int attempt < m")
    case False
    with "1.prems" show ?thesis by (simp add: loop_exhausted)
  next
    case inrange: True
    show ?thesis
    proof (cases "attempt_body lib (env attempt)")
      case (Inr result)
      with inrange "1.prems" show ?thesis
        by (simp add: loop_success [where env = env and attempt = attempt])
    next
      case (Inl e)
      show ?thesis
      proof (cases "int attempt = m - 1")
        case True
        with Inl "1.prems" show ?thesis
          by (simp add: loop_last_failure [where env = env and attempt = attempt])
      next
        case False
        with inrange have more: "int attempt < m - 1" by linarith
        from "1.prems" have "p = prompt \<or>
            Invoke p \<in> set (snd (run_analysis_loop lib m prompt env (Suc attempt)))"
          by (auto simp: loop_retry [where env = env and attempt = attempt, OF Inl more]
                   split: if_splits)
        then show ?thesis
        proof
          assume "p = prompt" then show ?thesis .
        next
          assume rest: "Invoke p \<in> set (snd (run_analysis_loop lib m prompt env (Suc attempt)))"
          show ?thesis
          proof (cases "e = TimeoutError")
            case True
            from "1.IH"(1) [OF inrange Inl True False rest] show ?thesis .
          next
            case notimeout: False
            from "1.IH"(2) [OF inrange Inl notimeout False rest] show ?thesis .
          qed
        qed
      qed
    qed
  qed
qed

text \<open>
  C7. Document truncation. The prompt is the same text around \<open>document_text[:8000]\<close>
  for every document: what is embedded has the length of the document or 8000, whichever
  is less, and is the whole document when that has at most 8000 characters. No exception
  comes from it: \<open>_build_prompt\<close> returns for every input, the backend run on a
  document is the run on its first 8000 characters, and every invocation of the external
  command carries that prompt.
\<close>

theorem document_truncation:
  "\<exists>before after. \<forall>document_text.
      build_prompt lib persona_profile document_text =
        before @ take 8000 document_text @ after
    \<and> length (take 8000 document_text) = min 8000 (length document_text)
    \<and> (length document_text \<le> 8000 \<longrightarrow> take 8000 document_text = document_text)
    \<and> (\<forall>cfg env.
          run_analysis lib cfg persona_profile document_text env =
            run_analysis lib cfg persona_profile (take 8000 document_text) env
        \<and> (\<forall>p. Invoke p \<in> set (snd (run_analysis lib cfg persona_profile document_text env)) \<longrightarrow>
               p = before @ take 8000 document_text @ after))"
proof (intro exI allI conjI impI)
  fix document_text :: string
  show "build_prompt lib persona_profile document_text =
        (prompt_head @ json_dumps lib (JObj persona_profile) @ prompt_role_instruction) @
        take 8000 document_text @
        (prompt_rubric @
         fstring_value lib (dict_get persona_profile ''role'' (JStr ''Unknown'')) @ prompt_tail)"
    by (simp add: build_prompt_def)
  show "length (take 8000 document_text) = min 8000 (length document_text)"
    by simp
  show "take 8000 document_text = document_text" if "length document_text \<le> 8000"
    using that by simp
  fix cfg env
  show "run_analysis lib cfg persona_profile document_text env =
        run_analysis lib cfg persona_profile (take 8000 document_text) env"
    by (simp add: run_analysis_def build_prompt_take)
  fix p
  assume "Invoke p \<in> set (snd (run_analysis lib cfg persona_profile document_text env))"
  then have "p = build_prompt lib persona_profile document_text"
    unfolding run_analysis_def by (rule loop_invokes_prompt)
  then show "p = (prompt_head @ json_dumps lib (JObj persona_profile) @ prompt_role_instruction) @
        take 8000 document_text @
        (prompt_rubric @
         fstring_value lib (dict_get persona_profile ''role'' (JStr ''Unknown'')) @ prompt_tail)"
    by (simp add: build_prompt_def)
qed


theorem document_truncation_witness:
  "\<exists>before after.
      build_prompt lib0 (p_profile_json persona1) (replicate 8001 (CHR ''a'')) =
        before @ replicate 8000 (CHR ''a'') @ after
    \<and> build_prompt lib0 (p_profile_json persona1) ''Buy now.'' = before @ ''Buy now.'' @ after"
proof -
  from document_truncation [of lib0 "p_profile_json persona1"]
  obtain before after where h: "\<And>document_text.
      build_prompt lib0 (p_profile_json persona1) document_text =
        before @ take 8000 document_text @ after"
    by blast
  from h [of "replicate 8001 (CHR ''a'')"] h [of "''Buy now.''"] show ?thesis
    by (intro exI [of _ before] exI [of _ after]) simp
qed

section \<open>The store and one iteration\<close>

lemma db_update_analysis [simp]:
  "db (update_analysis i f st) =
     (db st)\<lparr>analyses := (analyses (db st))[i := f (analyses (db st) ! i)]\<rparr>"
  by (simp add: update_analysis_def)

lemma commits_update_analysis [simp]: "commits (update_analysis i f st) = commits st"
  by (simp add: update_analysis_def)

lemma db_db_add [simp]: "db (db_add a st) = (db st)\<lparr>analyses := analyses (db st) @ [a]\<rparr>"
  by (simp add: db_add_def)

lemma commits_db_add [simp]: "commits (db_add a st) = commits st"
  by (simp add: db_add_def)

lemma store_eqI: "db s = db t \<Longrightarrow> commits s = commits t \<Longrightarrow> s = (t :: store)"
  by simp

lemma record_result_dict:
  assumes "i < length (analyses (db st))"
  shows "record_result i (JObj d) st = (None, commit (update_analysis i (stored_result d) st))"
  using assms
  by (simp add: record_result_def Let_def stored_result_def store_eqI)

lemma record_result_other:
  assumes "i < length (analyses (db st))" and "unit_outcome (Inr v) = Inl e"
  shows "record_result i v st = (Some e, update_analysis i (\<lambda>a. a\<lparr>a_status := ''completed''\<rparr>) st)"
  using assms
  by (cases v) (simp_all add: record_result_def Let_def)

lemma unit_outcome_Inr_iff: "(unit_outcome r = Inr d) = (r = Inr (JObj d))"
  by (cases r rule: unit_outcome.cases) simp_all

lemma run_iteration_closed:
  assumes "i < length (analyses (db st))"
  shows "run_iteration lib cfg backend env (i, persona) document_text st =
     (unit_report persona
        (unit_outcome (fst (backend_run_analysis lib cfg backend (p_profile_json persona)
                              document_text env))),
      commit (update_analysis i
                (unit_final (unit_outcome (fst (backend_run_analysis lib cfg backend
                                                  (p_profile_json persona) document_text env))))
                (commit (update_analysis i (\<lambda>a. a\<lparr>a_status := ''running''\<rparr>) st))))"
proof (cases "fst (backend_run_analysis lib cfg backend (p_profile_json persona) document_text env)")
  case (Inl e)
  with assms show ?thesis
    by (simp add: run_iteration_def try_analysis_def Let_def stored_failure_def store_eqI)
next
  case (Inr v)
  show ?thesis
  proof (cases "unit_outcome (Inr v)")
    case (Inl e)
    with assms Inr show ?thesis
      by (simp add: run_iteration_def try_analysis_def Let_def stored_failure_def store_eqI
                    record_result_other [where e = e])
  next
    case d: (Inr d)
    then have v: "v = JObj d" by (simp add: unit_outcome_Inr_iff)
    with assms Inr show ?thesis
      by (simp add: run_iteration_def try_analysis_def Let_def stored_result_def store_eqI
                    record_result_dict)
  qed
qed

lemma unit_final_status [simp]: "unit_final out (a\<lparr>a_status := v\<rparr>) = unit_final out a"
  by (cases out) (simp_all add: stored_result_def stored_failure_def)

lemma run_iteration_analyses:
  assumes "i < length (analyses (db st))"
  shows "analyses (db (snd (run_iteration lib cfg backend env (i, persona) document_text st))) =
     (analyses (db st))
       [i := unit_final
               (unit_outcome (fst (backend_run_analysis lib cfg backend (p_profile_json persona)
                                     document_text env)))
               (analyses (db st) ! i)]"
  using assms by (simp add: run_iteration_closed)

lemma run_iteration_tables:
  assumes "i < length (analyses (db st))"
  shows "sessions (db (snd (run_iteration lib cfg backend env (i, persona) document_text st))) =
           sessions (db st)
       \<and> persona_profiles (db (snd (run_iteration lib cfg backend env (i, persona) document_text st))) =
           persona_profiles (db st)"
  using assms by (simp add: run_iteration_closed)


lemma run_iteration_report:
  assumes "i < length (analyses (db st))"
  shows "fst (run_iteration lib cfg backend env (i, persona) document_text st) =
     unit_report persona
        (unit_outcome (fst (backend_run_analysis lib cfg backend (p_profile_json persona)
                              document_text env)))"
  using assms by (simp add: run_iteration_closed)

lemma a_status_unit_final:
  "a_status (unit_final out a) = (case out of Inr d \<Rightarrow> ''completed'' | Inl e \<Rightarrow> ''failed'')"
  by (cases out) (simp_all add: stored_result_def stored_failure_def)




lemma backend_times_out:
  "fst (backend_run_analysis lib0 default_settings (Some ClaudeCodeBackend) profile document_text
          (times_out 3)) = Inl (Exception ''Analysis timed out after all retries'')"
  by (simp add: timeouts_run_analysis default_settings_def)


section \<open>What a successful evaluation leaves on the unit\<close>




section \<open>Retrying one analysis\<close>

lemma retry_not_failed:
  assumes "first_index (\<lambda>a. a_session_id a = session_id \<and> a_persona_id a = persona_id)
             (analyses (db st)) = Some i"
    and "a_status (analyses (db st) ! i) \<noteq> ''failed''"
  shows "retry_failed_analysis lib cfg backend env session_id persona_id document_text st =
           (Inl (ValueError ''Analysis is not in failed state''), st)"
  using assms by (simp add: retry_failed_analysis_def)

lemma retry_closed:
  assumes found: "first_index (\<lambda>a. a_session_id a = session_id \<and> a_persona_id a = persona_id)
             (analyses (db st)) = Some i"
    and failed: "a_status (analyses (db st) ! i) = ''failed''"
    and persona: "get_persona (db st) persona_id None = Some persona"
  shows "retry_failed_analysis lib cfg backend env session_id persona_id document_text st =
     (Inr (unit_report persona
        (unit_outcome (fst (backend_run_analysis lib cfg backend (p_profile_json persona)
                              document_text env)))),
      (case unit_outcome (fst (backend_run_analysis lib cfg backend (p_profile_json persona)
                                 document_text env)) of
         Inr d \<Rightarrow>
           update_session_status session_id
             (commit (update_analysis i (stored_result d)
                (commit (update_analysis i
                           (\<lambda>a. a\<lparr>a_status := ''running'', error_message := None\<rparr>) st))))
       | Inl e \<Rightarrow>
           commit (update_analysis i (stored_failure e)
             (commit (update_analysis i
                        (\<lambda>a. a\<lparr>a_status := ''running'', error_message := None\<rparr>) st)))))"
proof -
  from first_index_Some [OF found] have i: "i < length (analyses (db st))"
    by simp
  show ?thesis
  proof (cases "fst (backend_run_analysis lib cfg backend (p_profile_json persona) document_text env)")
    case (Inl e)
    with i found failed persona show ?thesis
      by (simp add: retry_failed_analysis_def try_retry_def Let_def stored_failure_def store_eqI)
  next
    case (Inr v)
    show ?thesis
    proof (cases "unit_outcome (Inr v)")
      case (Inl e)
      with i found failed persona Inr show ?thesis
        by (simp add: retry_failed_analysis_def try_retry_def Let_def stored_failure_def
                      store_eqI record_result_other [where e = e])
    next
      case d: (Inr d)
      then have v: "v = JObj d" by (simp add: unit_outcome_Inr_iff)
      with i found failed persona Inr show ?thesis
        by (simp add: retry_failed_analysis_def try_retry_def Let_def stored_result_def
                      store_eqI record_result_dict)
    qed
  qed
qed



lemma analyses_update_session_status [simp]:
  "analyses (db (update_session_status session_id st)) = analyses (db st)"
  by (simp add: update_session_status_def Let_def split: option.split)

lemma persona_profiles_update_session_status [simp]:
  "persona_profiles (db (update_session_status session_id st)) = persona_profiles (db st)"
  by (simp add: update_session_status_def Let_def split: option.split)






section \<open>Running a job\<close>

lemma get_persona_id: "get_persona d persona_id user = Some p \<Longrightarrow> p_id p = persona_id"
  by (auto simp: get_persona_def find_Some_iff)

lemma get_persona_cong:
  "persona_profiles d' = persona_profiles d \<Longrightarrow> get_persona d' pid user = get_persona d pid user"
  by (simp add: get_persona_def)

lemma resolve_personas_cong:
  assumes "persona_profiles d' = persona_profiles d"
  shows "resolve_personas d' ids = resolve_personas d ids"
  by (induction ids) (simp_all add: get_persona_cong [OF assms] split: option.split)

lemma resolve_personas_ids:
  "map p_id (resolve_personas d ids) = filter (\<lambda>pid. get_persona d pid None \<noteq> None) ids"
  by (induction ids) (auto simp: get_persona_id split: option.split)

lemma resolve_personas_Nil:
  "(resolve_personas d ids = []) = (\<forall>pid\<in>set ids. get_persona d pid None = None)"
  by (induction ids) (auto split: option.split)

lemma create_analyses_units:
  "fst (create_analyses session_id ps st) = enumerate (length (analyses (db st))) ps"
  by (induction ps arbitrary: st) (simp_all add: Let_def case_prod_unfold)

lemma create_analyses_db:
  "db (snd (create_analyses session_id ps st)) =
     (db st)\<lparr>analyses := analyses (db st) @ map (\<lambda>p. new_analysis session_id (p_id p)) ps\<rparr>"
  by (induction ps arbitrary: st) (simp_all add: Let_def case_prod_unfold)

lemma create_analyses_commits:
  "commits (snd (create_analyses session_id ps st)) = commits st"
  by (induction ps arbitrary: st) (simp_all add: Let_def case_prod_unfold)


lemma run_sequential_Cons_fst:
  "fst (run_sequential_analyses lib cfg backend envs k (u # units) document_text st) =
     fst (run_iteration lib cfg backend (envs k) u document_text st) #
     fst (run_sequential_analyses lib cfg backend envs (Suc k) units document_text
            (snd (run_iteration lib cfg backend (envs k) u document_text st)))"
  by (simp add: case_prod_unfold)

lemma run_sequential_Cons_snd:
  "snd (run_sequential_analyses lib cfg backend envs k (u # units) document_text st) =
     snd (run_sequential_analyses lib cfg backend envs (Suc k) units document_text
            (snd (run_iteration lib cfg backend (envs k) u document_text st)))"
  by (simp add: case_prod_unfold)

lemma run_sequential_reports:
  assumes "\<forall>u\<in>set units. fst u < length (analyses (db st))"
  shows "fst (run_sequential_analyses lib cfg backend envs k units document_text st) =
           map (\<lambda>(j, u). unit_report (snd u) (outcome_of lib cfg backend envs document_text (snd u) j))
               (enumerate k units)
       \<and> length (analyses (db (snd (run_sequential_analyses lib cfg backend envs k units
                                      document_text st)))) = length (analyses (db st))
       \<and> sessions (db (snd (run_sequential_analyses lib cfg backend envs k units
                                      document_text st))) = sessions (db st)
       \<and> persona_profiles (db (snd (run_sequential_analyses lib cfg backend envs k units
                                      document_text st))) = persona_profiles (db st)"
  using assms
proof (induction units arbitrary: k st)
  case Nil
  show ?case by simp
next
  case (Cons u units)
  obtain i persona where u: "u = (i, persona)" by (cases u)
  from Cons.prems u have i: "i < length (analyses (db st))" by simp
  define st' where "st' = snd (run_iteration lib cfg backend (envs k) u document_text st)"
  have len: "length (analyses (db st')) = length (analyses (db st))"
    unfolding st'_def u by (simp add: run_iteration_analyses [OF i])
  have tables: "sessions (db st') = sessions (db st)"
      "persona_profiles (db st') = persona_profiles (db st)"
    unfolding st'_def u using run_iteration_tables [OF i] by simp_all
  have report: "fst (run_iteration lib cfg backend (envs k) u document_text st) =
      unit_report persona (outcome_of lib cfg backend envs document_text persona k)"
    unfolding u outcome_of_def by (rule run_iteration_report [OF i])
  from Cons.prems len have "\<forall>u\<in>set units. fst u < length (analyses (db st'))"
    by simp
  note IH = Cons.IH [OF this, of "Suc k"]
  show ?case
    unfolding run_sequential_Cons_fst run_sequential_Cons_snd st'_def [symmetric]
    using IH len tables report by (simp add: u)
qed


lemma run_sequential_frame:
  assumes "\<forall>u\<in>set units. fst u < length (analyses (db st))"
    and "j \<notin> fst ` set units"
  shows "analyses (db (snd (run_sequential_analyses lib cfg backend envs k units
                              document_text st))) ! j = analyses (db st) ! j"
  using assms
proof (induction units arbitrary: k st)
  case Nil
  show ?case by simp
next
  case (Cons u units)
  obtain i persona where u: "u = (i, persona)" by (cases u)
  from Cons.prems u have i: "i < length (analyses (db st))" and ji: "j \<noteq> i"
    and j: "j \<notin> fst ` set units" by auto
  define st' where "st' = snd (run_iteration lib cfg backend (envs k) u document_text st)"
  have rows: "analyses (db st') =
      (analyses (db st))[i := unit_final (outcome_of lib cfg backend envs document_text persona k)
                                 (analyses (db st) ! i)]"
    unfolding st'_def u outcome_of_def by (rule run_iteration_analyses [OF i])
  from Cons.prems rows have "\<forall>u\<in>set units. fst u < length (analyses (db st'))"
    by simp
  note IH = Cons.IH [OF this j, of "Suc k"]
  show ?case
    unfolding run_sequential_Cons_snd st'_def [symmetric]
    using IH ji by (simp add: rows)
qed

lemma run_sequential_rows:
  assumes "\<forall>u\<in>set units. fst u < length (analyses (db st))"
    and "distinct (map fst units)"
    and "m < length units"
  shows "analyses (db (snd (run_sequential_analyses lib cfg backend envs k units
                              document_text st))) ! fst (units ! m) =
         unit_final (outcome_of lib cfg backend envs document_text (snd (units ! m)) (k + m))
                    (analyses (db st) ! fst (units ! m))"
  using assms
proof (induction units arbitrary: k st m)
  case Nil
  then show ?case by simp
next
  case (Cons u units)
  obtain i persona where u: "u = (i, persona)" by (cases u)
  from Cons.prems u have i: "i < length (analyses (db st))"
    and fresh: "i \<notin> fst ` set units" and dist: "distinct (map fst units)" by auto
  define st' where "st' = snd (run_iteration lib cfg backend (envs k) u document_text st)"
  have rows: "analyses (db st') =
      (analyses (db st))[i := unit_final (outcome_of lib cfg backend envs document_text persona k)
                                 (analyses (db st) ! i)]"
    unfolding st'_def u outcome_of_def by (rule run_iteration_analyses [OF i])
  from Cons.prems rows have valid': "\<forall>u\<in>set units. fst u < length (analyses (db st'))"
    by simp
  show ?case
  proof (cases m)
    case 0
    from run_sequential_frame [OF valid' fresh, of lib cfg backend envs "Suc k" document_text]
    show ?thesis
      unfolding run_sequential_Cons_snd st'_def [symmetric]
      using i by (simp add: 0 u rows)
  next
    case (Suc m')
    with Cons.prems have m': "m' < length units" by simp
    then have "fst (units ! m') \<in> fst ` set units" by simp
    with fresh have ne: "fst (units ! m') \<noteq> i" by metis
    from Cons.IH [OF valid' dist m', of "Suc k"]
    show ?thesis
      unfolding run_sequential_Cons_snd st'_def [symmetric]
      using ne by (simp add: Suc rows)
  qed
qed

lemma r_persona_id_unit_report [simp]: "r_persona_id (unit_report persona out) = p_id persona"
  by (cases out) simp_all

lemma analyze_none:
  assumes found: "first_index (\<lambda>s. s_id s = session_id) (sessions (db st)) = Some si"
    and none: "resolve_personas (db st) ids = []"
  shows "analyze_document lib cfg backend envs session_id document_text ids sequential st =
     (Inl (ValueError ''No valid personas selected''),
      commit (set_session_status si ''failed''
        (commit (set_session_status si ''analyzing'' st))))"
proof -
  have "resolve_personas (db (commit (set_session_status si ''analyzing'' st))) ids =
        resolve_personas (db st) ids"
    by (rule resolve_personas_cong) simp
  with found none show ?thesis
    by (simp add: analyze_document_def Let_def)
qed

lemma analyze_some:
  assumes found: "first_index (\<lambda>s. s_id s = session_id) (sessions (db st)) = Some si"
    and some: "resolve_personas (db st) ids \<noteq> []"
  shows "\<exists>outcome st'.
      analyze_document lib cfg backend envs session_id document_text ids sequential st =
        (Inr outcome, st')
    \<and> o_session_id outcome = session_id
    \<and> o_total_personas outcome = length (resolve_personas (db st) ids)
    \<and> length (o_results outcome) = length (resolve_personas (db st) ids)
    \<and> (\<forall>m<length (resolve_personas (db st) ids).
          o_results outcome ! m =
            unit_report (resolve_personas (db st) ids ! m)
              (outcome_of lib cfg backend envs document_text (resolve_personas (db st) ids ! m) m))
    \<and> length (analyses (db st')) =
        length (analyses (db st)) + length (resolve_personas (db st) ids)
    \<and> (\<forall>j<length (analyses (db st)). analyses (db st') ! j = analyses (db st) ! j)
    \<and> (\<forall>m<length (resolve_personas (db st) ids).
          analyses (db st') ! (length (analyses (db st)) + m) =
            unit_final
              (outcome_of lib cfg backend envs document_text (resolve_personas (db st) ids ! m) m)
              (new_analysis session_id (p_id (resolve_personas (db st) ids ! m))))
    \<and> s_status (sessions (db st') ! si) = status_of_results (o_results outcome)
    \<and> persona_profiles (db st') = persona_profiles (db st)
    \<and> last (commits st') = db st'"
proof -
  define ps where "ps = resolve_personas (db st) ids"
  define n0 where "n0 = length (analyses (db st))"
  define st1 where "st1 = commit (set_session_status si ''analyzing'' st)"
  define st2 where "st2 = commit (snd (create_analyses session_id ps st1))"
  define R where "R = run_sequential_analyses lib cfg backend envs 0 (enumerate n0 ps)
                        document_text st2"
  define st' where "st' = commit (set_session_status si (status_of_results (fst R)) (snd R))"
  define outcome where "outcome =
       \<lparr>o_session_id = session_id, o_total_personas = length ps,
        o_completed = length (filter (\<lambda>r. r_status r = ''completed'') (fst R)),
        o_failed = length (filter (\<lambda>r. r_status r = ''failed'') (fst R)),
        o_results = fst R\<rparr>"
  from first_index_Some [OF found] have si: "si < length (sessions (db st))"
    by simp
  have ps: "resolve_personas (db st1) ids = ps"
    unfolding ps_def st1_def by (rule resolve_personas_cong) simp
  have units: "fst (create_analyses session_id ps st1) = enumerate n0 ps"
    by (simp add: create_analyses_units n0_def st1_def)
  have run: "analyze_document lib cfg backend envs session_id document_text ids sequential st =
               (Inr outcome, st')"
    using found some
    by (simp add: analyze_document_def Let_def case_prod_unfold run_parallel_analyses_def
                  st1_def [symmetric] ps units ps_def [symmetric] st2_def [symmetric]
                  R_def [symmetric] st'_def outcome_def)
  have rows2: "analyses (db st2) =
                 analyses (db st) @ map (\<lambda>p. new_analysis session_id (p_id p)) ps"
    by (simp add: st2_def create_analyses_db st1_def)
  have len2: "length (analyses (db st2)) = n0 + length ps"
    by (simp add: rows2 n0_def)
  have valid: "\<forall>u\<in>set (enumerate n0 ps). fst u < length (analyses (db st2))"
    by (auto simp: in_set_enumerate_eq len2)
  have dist: "distinct (map fst (enumerate n0 ps))"
    by simp
  note reports = run_sequential_reports [OF valid, of lib cfg backend envs 0 document_text,
                   folded R_def]
  have results: "fst R ! m = unit_report (ps ! m) (outcome_of lib cfg backend envs document_text (ps ! m) m)"
    if "m < length ps" for m
    using that reports by (simp add: nth_enumerate_eq)
  have nresults: "length (fst R) = length ps"
    using reports by simp
  have old: "analyses (db (snd R)) ! j = analyses (db st) ! j" if "j < n0" for j
  proof -
    from that have "j \<notin> fst ` set (enumerate n0 ps)"
      by (auto simp: in_set_enumerate_eq)
    from run_sequential_frame [OF valid this, of lib cfg backend envs 0 document_text,
           folded R_def]
    show ?thesis using that by (simp add: rows2 nth_append n0_def)
  qed
  have new: "analyses (db (snd R)) ! (n0 + m) =
       unit_final (outcome_of lib cfg backend envs document_text (ps ! m) m)
                  (new_analysis session_id (p_id (ps ! m)))"
    if "m < length ps" for m
  proof -
    from that have "m < length (enumerate n0 ps)" by simp
    from run_sequential_rows [OF valid dist this, of lib cfg backend envs 0 document_text,
           folded R_def]
    show ?thesis using that by (simp add: nth_enumerate_eq rows2 nth_append n0_def)
  qed
  have sess: "sessions (db (snd R)) = sessions (db st2)"
    and pers: "persona_profiles (db (snd R)) = persona_profiles (db st2)"
    and lenR: "length (analyses (db (snd R))) = n0 + length ps"
    using reports len2 by simp_all
  have sess2: "length (sessions (db st2)) = length (sessions (db st))"
    and pers2: "persona_profiles (db st2) = persona_profiles (db st)"
    by (simp_all add: st2_def create_analyses_db st1_def)
  have status: "s_status (sessions (db st') ! si) = status_of_results (fst R)"
    using si by (simp add: st'_def sess sess2)
  show ?thesis
    using run results nresults old new lenR status pers pers2
    by (intro exI [of _ outcome] exI [of _ st'])
       (simp add: ps_def [symmetric] n0_def [symmetric] outcome_def st'_def)
qed

lemma resolve_personas_the:
  "resolve_personas d ids =
     map (\<lambda>pid. the (get_persona d pid None)) (filter (\<lambda>pid. get_persona d pid None \<noteq> None) ids)"
  by (induction ids) (auto split: option.split)

lemma unit_final_ids [simp]:
  "a_persona_id (unit_final out a) = a_persona_id a"
  "a_session_id (unit_final out a) = a_session_id a"
  by (cases out; simp add: stored_result_def stored_failure_def)+

lemma new_analysis_ids [simp]:
  "a_persona_id (new_analysis session_id persona_id) = persona_id"
  "a_session_id (new_analysis session_id persona_id) = session_id"
  by (simp_all add: new_analysis_def)

lemma analyze_resolved:
  assumes found: "first_index (\<lambda>s. s_id s = session_id) (sessions (db st)) = Some si"
    and some: "filter (\<lambda>pid. get_persona (db st) pid None \<noteq> None) ids \<noteq> []"
  shows "\<exists>outcome st'.
      analyze_document lib cfg backend envs session_id document_text ids sequential st =
        (Inr outcome, st')
    \<and> length (analyses (db st')) =
        length (analyses (db st)) +
        length (filter (\<lambda>pid. get_persona (db st) pid None \<noteq> None) ids)
    \<and> take (length (analyses (db st))) (analyses (db st')) = analyses (db st)
    \<and> map a_persona_id (drop (length (analyses (db st))) (analyses (db st'))) =
        filter (\<lambda>pid. get_persona (db st) pid None \<noteq> None) ids
    \<and> (\<forall>a\<in>set (drop (length (analyses (db st))) (analyses (db st'))).
          a_session_id a = session_id \<and>
          (a_status a = ''completed'' \<or> a_status a = ''failed''))
    \<and> map r_persona_id (o_results outcome) =
        filter (\<lambda>pid. get_persona (db st) pid None \<noteq> None) ids
    \<and> o_total_personas outcome =
        length (filter (\<lambda>pid. get_persona (db st) pid None \<noteq> None) ids)
    \<and> (\<forall>m<length (filter (\<lambda>pid. get_persona (db st) pid None \<noteq> None) ids).
          \<exists>persona.
            get_persona (db st) (filter (\<lambda>pid. get_persona (db st) pid None \<noteq> None) ids ! m) None
              = Some persona
          \<and> o_results outcome ! m =
              unit_report persona (outcome_of lib cfg backend envs document_text persona m)
          \<and> analyses (db st') ! (length (analyses (db st)) + m) =
              unit_final (outcome_of lib cfg backend envs document_text persona m)
                (new_analysis session_id
                   (filter (\<lambda>pid. get_persona (db st) pid None \<noteq> None) ids ! m)))"
proof -
  define rs where "rs = filter (\<lambda>pid. get_persona (db st) pid None \<noteq> None) ids"
  define ps where "ps = resolve_personas (db st) ids"
  define n0 where "n0 = length (analyses (db st))"
  have ps_rs: "ps = map (\<lambda>pid. the (get_persona (db st) pid None)) rs"
    unfolding ps_def rs_def by (rule resolve_personas_the)
  have ids_ps: "map p_id ps = rs"
    unfolding ps_def rs_def by (rule resolve_personas_ids)
  have len: "length ps = length rs"
    by (simp add: ps_rs)
  from some have "ps \<noteq> []"
    by (simp add: ps_rs rs_def)
  from analyze_some [OF found this [unfolded ps_def], of lib cfg backend envs document_text
         sequential, folded ps_def n0_def]
  obtain outcome st' where
    run: "analyze_document lib cfg backend envs session_id document_text ids sequential st =
            (Inr outcome, st')"
    and total: "o_total_personas outcome = length ps"
    and nres: "length (o_results outcome) = length ps"
    and res: "\<And>m. m < length ps \<Longrightarrow> o_results outcome ! m =
            unit_report (ps ! m) (outcome_of lib cfg backend envs document_text (ps ! m) m)"
    and nrows: "length (analyses (db st')) = n0 + length ps"
    and old: "\<And>j. j < n0 \<Longrightarrow> analyses (db st') ! j = analyses (db st) ! j"
    and new: "\<And>m. m < length ps \<Longrightarrow> analyses (db st') ! (n0 + m) =
            unit_final (outcome_of lib cfg backend envs document_text (ps ! m) m)
                       (new_analysis session_id (p_id (ps ! m)))"
    by blast
  have pid: "p_id (ps ! m) = rs ! m" if "m < length rs" for m
    using that ids_ps len by (metis nth_map)
  have persona: "get_persona (db st) (rs ! m) None = Some (ps ! m)" if "m < length rs" for m
  proof -
    from that have "rs ! m \<in> set rs" by simp
    then have "get_persona (db st) (rs ! m) None \<noteq> None"
      by (simp add: rs_def)
    with that show ?thesis by (auto simp: ps_rs)
  qed
  have take_old: "take n0 (analyses (db st')) = analyses (db st)"
    using old nrows by (intro nth_equalityI) (simp_all add: n0_def)
  have drop_nth: "drop n0 (analyses (db st')) ! m =
        unit_final (outcome_of lib cfg backend envs document_text (ps ! m) m)
                   (new_analysis session_id (rs ! m))"
    if "m < length rs" for m
    using that new [of m] nrows len pid by simp
  have drop_len: "length (drop n0 (analyses (db st'))) = length rs"
    using nrows len by simp
  have drop_ids: "map a_persona_id (drop n0 (analyses (db st'))) = rs"
    using drop_nth drop_len by (intro nth_equalityI) simp_all
  have drop_ok: "a_session_id a = session_id \<and>
                 (a_status a = ''completed'' \<or> a_status a = ''failed'')"
    if "a \<in> set (drop n0 (analyses (db st')))" for a
  proof -
    from that obtain m where "m < length rs" "a = drop n0 (analyses (db st')) ! m"
      using drop_len by (metis in_set_conv_nth)
    with drop_nth [of m] show ?thesis
      by (simp add: a_status_unit_final split: sum.split)
  qed
  have res_ids: "map r_persona_id (o_results outcome) = rs"
    using res nres len pid by (intro nth_equalityI) simp_all
  have each: "\<exists>persona. get_persona (db st) (rs ! m) None = Some persona
          \<and> o_results outcome ! m =
              unit_report persona (outcome_of lib cfg backend envs document_text persona m)
          \<and> analyses (db st') ! (n0 + m) =
              unit_final (outcome_of lib cfg backend envs document_text persona m)
                (new_analysis session_id (rs ! m))"
    if "m < length rs" for m
    using that persona [of m] res [of m] new [of m] pid [of m] len
    by (intro exI [of _ "ps ! m"]) simp
  show ?thesis
    using run nrows len take_old drop_ids drop_ok res_ids total each
    unfolding rs_def [symmetric] n0_def [symmetric]
    by (intro exI [of _ outcome] exI [of _ st']) simp
qed

section \<open>The selection of personas\<close>

text \<open>
  C5. NoValidPersonas. For a session that exists: when none of the selected ids resolves
  to a persona (an empty selection included), \<open>analyze_document\<close> raises
  \<open>ValueError("No valid personas selected")\<close>, leaves the session's status \<open>failed\<close>
  and committed, and creates no analysis, in the database or in any commit of the call.
  When at least one id resolves, the call returns its outcome without raising, and the
  reports and the new analyses are those of the ids that resolve, in their order: the
  others are passed over.
\<close>

theorem no_valid_personas:
  assumes found: "first_index (\<lambda>s. s_id s = session_id) (sessions (db st)) = Some si"
  shows "((\<forall>pid\<in>set ids. get_persona (db st) pid None = None) \<longrightarrow>
            (\<exists>st'.
                analyze_document lib cfg backend envs session_id document_text ids sequential st
                  = (Inl (ValueError ''No valid personas selected''), st')
              \<and> s_status (sessions (db st') ! si) = ''failed''
              \<and> analyses (db st') = analyses (db st)
              \<and> (\<forall>d\<in>set (commits st'). d \<in> set (commits st) \<or> analyses d = analyses (db st))
              \<and> last (commits st') = db st'))
       \<and> ((\<exists>pid\<in>set ids. get_persona (db st) pid None \<noteq> None) \<longrightarrow>
            (\<exists>outcome st'.
                analyze_document lib cfg backend envs session_id document_text ids sequential st
                  = (Inr outcome, st')
              \<and> map r_persona_id (o_results outcome) =
                  filter (\<lambda>pid. get_persona (db st) pid None \<noteq> None) ids
              \<and> map a_persona_id (drop (length (analyses (db st))) (analyses (db st'))) =
                  filter (\<lambda>pid. get_persona (db st) pid None \<noteq> None) ids))"
proof (intro conjI impI)
  assume "\<forall>pid\<in>set ids. get_persona (db st) pid None = None"
  then have none: "resolve_personas (db st) ids = []"
    by (simp add: resolve_personas_Nil)
  from first_index_Some [OF found] have si: "si < length (sessions (db st))"
    by simp
  let ?st' = "commit (set_session_status si ''failed''
                (commit (set_session_status si ''analyzing'' st)))"
  have "s_status (sessions (db ?st') ! si) = ''failed''"
    using si by simp
  moreover have "analyses (db ?st') = analyses (db st)"
    by simp
  moreover have "\<forall>d\<in>set (commits ?st'). d \<in> set (commits st) \<or> analyses d = analyses (db st)"
    by auto
  moreover have "last (commits ?st') = db ?st'"
    by simp
  ultimately show "\<exists>st'.
      analyze_document lib cfg backend envs session_id document_text ids sequential st
        = (Inl (ValueError ''No valid personas selected''), st')
    \<and> s_status (sessions (db st') ! si) = ''failed''
    \<and> analyses (db st') = analyses (db st)
    \<and> (\<forall>d\<in>set (commits st'). d \<in> set (commits st) \<or> analyses d = analyses (db st))
    \<and> last (commits st') = db st'"
    unfolding analyze_none [OF found none] by blast
next
  assume "\<exists>pid\<in>set ids. get_persona (db st) pid None \<noteq> None"
  then have "filter (\<lambda>pid. get_persona (db st) pid None \<noteq> None) ids \<noteq> []"
    by (simp add: filter_empty_conv)
  from analyze_resolved [OF found this, of lib cfg backend envs document_text sequential]
  show "\<exists>outcome st'.
      analyze_document lib cfg backend envs session_id document_text ids sequential st
        = (Inr outcome, st')
    \<and> map r_persona_id (o_results outcome) =
        filter (\<lambda>pid. get_persona (db st) pid None \<noteq> None) ids
    \<and> map a_persona_id (drop (length (analyses (db st))) (analyses (db st'))) =
        filter (\<lambda>pid. get_persona (db st) pid None \<noteq> None) ids"
    by blast
qed

lemma store0_session: "first_index (\<lambda>s. s_id s = ''s1'') (sessions (db store0)) = Some 0"
  by (simp add: store0_def db0_def)

lemma store0_personas:
  "get_persona (db store0) ''p1'' None = Some persona1"
  "get_persona (db store0) ''ghost'' None = None"
  by (simp_all add: get_persona_def store0_def db0_def persona1_def)

theorem no_valid_personas_witness:
  "fst (analyze_document lib0 default_settings (Some ClaudeCodeBackend) (\<lambda>k. answers) ''s1''
          ''Buy now.'' [''ghost''] True store0) = Inl (ValueError ''No valid personas selected'')
   \<and> s_status (sessions (db (snd (analyze_document lib0 default_settings
         (Some ClaudeCodeBackend) (\<lambda>k. answers) ''s1'' ''Buy now.'' [''ghost''] True store0))) ! 0)
       = ''failed''
   \<and> analyses (db (snd (analyze_document lib0 default_settings (Some ClaudeCodeBackend)
         (\<lambda>k. answers) ''s1'' ''Buy now.'' [''ghost''] True store0))) = []
   \<and> fst (analyze_document lib0 default_settings (Some ClaudeCodeBackend) (\<lambda>k. answers) ''s1''
          ''Buy now.'' [] True store0) = Inl (ValueError ''No valid personas selected'')"
proof -
  have "analyses (db store0) = []"
    by (simp add: store0_def db0_def)
  with no_valid_personas [OF store0_session, of "[''ghost'']" lib0 default_settings
         "Some ClaudeCodeBackend" "\<lambda>k. answers" "''Buy now.''" True]
       no_valid_personas [OF store0_session, of "[]" lib0 default_settings
         "Some ClaudeCodeBackend" "\<lambda>k. answers" "''Buy now.''" True]
  show ?thesis
    by (auto simp: store0_personas)
qed

text \<open>
  C10. Duplicate persona ids. For a session that exists and a selection in which at least
  one id resolves, \<open>analyze_document\<close> creates one analysis for every entry of the
  selection that resolves, a repeated id as often as it occurs: the new rows follow the
  rows the table had, which are untouched, they belong to the session, carry the ids of
  the resolving entries in the order of the selection, and each is \<open>completed\<close> or
  \<open>failed\<close> at the return. The reports are as many and in the same order, and the
  \<open>m\<close>-th run of the backend decides the \<open>m\<close>-th of them and its row.
\<close>

theorem one_unit_per_occurrence:
  assumes found: "first_index (\<lambda>s. s_id s = session_id) (sessions (db st)) = Some si"
    and some: "filter (\<lambda>pid. get_persona (db st) pid None \<noteq> None) ids \<noteq> []"
  shows "\<exists>outcome st'.
      analyze_document lib cfg backend envs session_id document_text ids sequential st =
        (Inr outcome, st')
    \<and> length (analyses (db st')) =
        length (analyses (db st)) +
        length (filter (\<lambda>pid. get_persona (db st) pid None \<noteq> None) ids)
    \<and> take (length (analyses (db st))) (analyses (db st')) = analyses (db st)
    \<and> map a_persona_id (drop (length (analyses (db st))) (analyses (db st'))) =
        filter (\<lambda>pid. get_persona (db st) pid None \<noteq> None) ids
    \<and> (\<forall>a\<in>set (drop (length (analyses (db st))) (analyses (db st'))).
          a_session_id a = session_id \<and>
          (a_status a = ''completed'' \<or> a_status a = ''failed''))
    \<and> map r_persona_id (o_results outcome) =
        filter (\<lambda>pid. get_persona (db st) pid None \<noteq> None) ids
    \<and> o_total_personas outcome =
        length (filter (\<lambda>pid. get_persona (db st) pid None \<noteq> None) ids)
    \<and> (\<forall>m<length (filter (\<lambda>pid. get_persona (db st) pid None \<noteq> None) ids).
          \<exists>persona.
            get_persona (db st) (filter (\<lambda>pid. get_persona (db st) pid None \<noteq> None) ids ! m) None
              = Some persona
          \<and> o_results outcome ! m =
              unit_report persona (outcome_of lib cfg backend envs document_text persona m)
          \<and> analyses (db st') ! (length (analyses (db st)) + m) =
              unit_final (outcome_of lib cfg backend envs document_text persona m)
                (new_analysis session_id
                   (filter (\<lambda>pid. get_persona (db st) pid None \<noteq> None) ids ! m)))"
  using assms by (rule analyze_resolved)

theorem one_unit_per_occurrence_witness:
  "length (analyses (db (snd (analyze_document lib0 default_settings (Some ClaudeCodeBackend)
       (\<lambda>k. answers) ''s1'' ''Buy now.'' [''p1'', ''ghost'', ''p1''] True store0)))) = 2
   \<and> map a_persona_id (analyses (db (snd (analyze_document lib0 default_settings
       (Some ClaudeCodeBackend) (\<lambda>k. answers) ''s1'' ''Buy now.'' [''p1'', ''ghost'', ''p1''] True
       store0)))) = [''p1'', ''p1'']"
proof -
  have empty: "analyses (db store0) = []"
    by (simp add: store0_def db0_def)
  have some: "filter (\<lambda>pid. get_persona (db store0) pid None \<noteq> None) [''p1'', ''ghost'', ''p1'']
                \<noteq> []"
    by (simp add: store0_personas)
  from one_unit_per_occurrence [OF store0_session some, of lib0 default_settings
         "Some ClaudeCodeBackend" "\<lambda>k. answers" "''Buy now.''" True] empty
  show ?thesis
    by (auto simp: store0_personas)
qed

section \<open>Result and error of a unit\<close>

lemma db_ok_cong: "analyses d' = analyses d \<Longrightarrow> db_ok d' = db_ok d"
  by (simp add: db_ok_def)

lemma store_ok_commit [simp]: "store_ok (commit st) = store_ok st"
  by (auto simp: store_ok_def)

lemma store_ok_set_session_status [simp]:
  "store_ok (set_session_status i v st) = store_ok st"
  by (simp add: store_ok_def db_ok_def)

lemma store_ok_update_session_status [simp]:
  "store_ok (update_session_status session_id st) = store_ok st"
  by (simp add: update_session_status_def Let_def split: option.split)

lemma list_all_update:
  "list_all P xs \<Longrightarrow> P y \<Longrightarrow> list_all P (xs[i := y])"
proof -
  assume all: "list_all P xs" and y: "P y"
  have "set (xs[i := y]) \<subseteq> insert y (set xs)"
    by (rule set_update_subset_insert)
  with all y show ?thesis
    by (auto simp: list_all_iff)
qed

lemma store_ok_update_analysis:
  assumes "store_ok st" and "unit_ok (f (analyses (db st) ! i))"
  shows "store_ok (update_analysis i f st)"
  using assms by (simp add: store_ok_def db_ok_def list_all_update)

lemma unit_ok_running: "clean a \<Longrightarrow> unit_ok (a\<lparr>a_status := ''running''\<rparr>)"
  by (simp add: clean_def unit_ok_def has_result_def)

lemma unit_ok_final: "clean a \<Longrightarrow> unit_ok (unit_final out a)"
  by (cases out)
     (simp_all add: clean_def unit_ok_def has_result_def stored_result_def stored_failure_def)

lemma run_iteration_ok:
  assumes ok: "store_ok st" and i: "i < length (analyses (db st))"
    and clean: "clean (analyses (db st) ! i)"
  shows "store_ok (snd (run_iteration lib cfg backend env (i, persona) document_text st))"
proof -
  let ?st1 = "commit (update_analysis i (\<lambda>a. a\<lparr>a_status := ''running''\<rparr>) st)"
  have ok1: "store_ok ?st1"
    using ok clean by (simp add: store_ok_update_analysis unit_ok_running)
  have row: "analyses (db ?st1) ! i = (analyses (db st) ! i)\<lparr>a_status := ''running''\<rparr>"
    using i by simp
  have "unit_ok (unit_final out (analyses (db ?st1) ! i))" for out
    unfolding row using clean by (simp add: unit_ok_final)
  with ok1 show ?thesis
    by (simp add: run_iteration_closed [OF i] store_ok_update_analysis)
qed

lemma run_sequential_ok:
  assumes "store_ok st"
    and "\<forall>u\<in>set units. fst u < length (analyses (db st)) \<and> clean (analyses (db st) ! fst u)"
    and "distinct (map fst units)"
  shows "store_ok (snd (run_sequential_analyses lib cfg backend envs k units document_text st))"
  using assms
proof (induction units arbitrary: k st)
  case Nil
  then show ?case by simp
next
  case (Cons u units)
  obtain i persona where u: "u = (i, persona)" by (cases u)
  from Cons.prems u have i: "i < length (analyses (db st))"
    and clean: "clean (analyses (db st) ! i)"
    and fresh: "i \<notin> fst ` set units" and dist: "distinct (map fst units)" by auto
  define st' where "st' = snd (run_iteration lib cfg backend (envs k) u document_text st)"
  have ok': "store_ok st'"
    unfolding st'_def u by (rule run_iteration_ok [OF Cons.prems(1) i clean])
  have rows: "analyses (db st') =
      (analyses (db st))[i := unit_final (outcome_of lib cfg backend envs document_text persona k)
                                 (analyses (db st) ! i)]"
    unfolding st'_def u outcome_of_def by (rule run_iteration_analyses [OF i])
  have rest: "\<forall>u\<in>set units. fst u < length (analyses (db st')) \<and>
                               clean (analyses (db st') ! fst u)"
  proof
    fix v assume v: "v \<in> set units"
    with fresh have "fst v \<noteq> i" by force
    with v Cons.prems(2) show "fst v < length (analyses (db st')) \<and>
                               clean (analyses (db st') ! fst v)"
      by (simp add: rows)
  qed
  from Cons.IH [OF ok' rest dist, of "Suc k"]
  show ?case
    unfolding run_sequential_Cons_snd st'_def [symmetric] .
qed

lemma create_analyses_ok:
  assumes "store_ok st"
  shows "store_ok (snd (create_analyses session_id ps st))"
proof -
  have "unit_ok (new_analysis session_id pid)" for pid
    by (simp add: unit_ok_def new_analysis_def has_result_def)
  then have "list_all unit_ok (map (\<lambda>p. new_analysis session_id (p_id p)) ps)"
    by (simp add: list_all_iff)
  with assms show ?thesis
    by (simp add: store_ok_def db_ok_def create_analyses_db create_analyses_commits)
qed

lemma clean_new_analysis: "clean (new_analysis session_id pid)"
  by (simp add: clean_def new_analysis_def has_result_def)

lemma analyze_document_ok:
  assumes ok: "store_ok st"
  shows "store_ok (snd (analyze_document lib cfg backend envs session_id document_text ids
                          sequential st))"
proof (cases "first_index (\<lambda>s. s_id s = session_id) (sessions (db st))")
  case None
  with ok show ?thesis by (simp add: analyze_document_def)
next
  case (Some si)
  show ?thesis
  proof (cases "resolve_personas (db st) ids = []")
    case True
    with ok show ?thesis by (simp add: analyze_none [OF Some True])
  next
    case False
    define ps where "ps = resolve_personas (db st) ids"
    define n0 where "n0 = length (analyses (db st))"
    define st1 where "st1 = commit (set_session_status si ''analyzing'' st)"
    define st2 where "st2 = commit (snd (create_analyses session_id ps st1))"
    define R where "R = run_sequential_analyses lib cfg backend envs 0 (enumerate n0 ps)
                          document_text st2"
    have ps: "resolve_personas (db st1) ids = ps"
      unfolding ps_def st1_def by (rule resolve_personas_cong) simp
    have units: "fst (create_analyses session_id ps st1) = enumerate n0 ps"
      by (simp add: create_analyses_units n0_def st1_def)
    have run: "snd (analyze_document lib cfg backend envs session_id document_text ids
                      sequential st) =
               commit (set_session_status si (status_of_results (fst R)) (snd R))"
      using Some False
      by (simp add: analyze_document_def Let_def case_prod_unfold run_parallel_analyses_def
                    st1_def [symmetric] ps units ps_def [symmetric] st2_def [symmetric]
                    R_def [symmetric])
    have ok2: "store_ok st2"
      unfolding st2_def st1_def using ok by (simp add: create_analyses_ok)
    have rows2: "analyses (db st2) =
                   analyses (db st) @ map (\<lambda>p. new_analysis session_id (p_id p)) ps"
      by (simp add: st2_def create_analyses_db st1_def)
    have valid: "\<forall>u\<in>set (enumerate n0 ps).
                   fst u < length (analyses (db st2)) \<and> clean (analyses (db st2) ! fst u)"
      by (auto simp: in_set_enumerate_eq rows2 nth_append n0_def clean_new_analysis)
    have "store_ok (snd R)"
      unfolding R_def by (rule run_sequential_ok [OF ok2 valid]) simp
    then show ?thesis
      by (simp add: run)
  qed
qed

lemma unit_final_fun:
  "unit_final (Inl e) = stored_failure e"
  "unit_final (Inr d) = stored_result d"
  by (rule ext, simp)+

lemma retry_ok:
  assumes ok: "store_ok st"
  shows "store_ok (snd (retry_failed_analysis lib cfg backend env session_id persona_id
                          document_text st))"
proof (cases "first_index (\<lambda>a. a_session_id a = session_id \<and> a_persona_id a = persona_id)
                (analyses (db st))")
  case None
  with ok show ?thesis by (simp add: retry_failed_analysis_def)
next
  case (Some i)
  from first_index_Some [OF Some] have i: "i < length (analyses (db st))"
    by simp
  show ?thesis
  proof (cases "a_status (analyses (db st) ! i) = ''failed''")
    case False
    with ok show ?thesis by (simp add: retry_not_failed [OF Some])
  next
    case failed: True
    show ?thesis
    proof (cases "get_persona (db st) persona_id None")
      case None
      with ok Some failed show ?thesis by (simp add: retry_failed_analysis_def)
    next
      case (Some persona)
      from ok i have "unit_ok (analyses (db st) ! i)"
        by (simp add: store_ok_def db_ok_def list_all_length)
      with failed have noresult: "\<not> has_result (analyses (db st) ! i)"
        by (simp add: unit_ok_def)
      let ?reset = "\<lambda>a. a\<lparr>a_status := ''running'', error_message := None\<rparr>"
      let ?st1 = "commit (update_analysis i ?reset st)"
      have cl: "clean (?reset (analyses (db st) ! i))"
        using noresult by (simp add: clean_def has_result_def)
      then have "unit_ok (?reset (analyses (db st) ! i))"
        by (simp add: clean_def unit_ok_def)
      with ok have ok1: "store_ok ?st1"
        by (simp add: store_ok_update_analysis)
      have row: "analyses (db ?st1) ! i = ?reset (analyses (db st) ! i)"
        using i by simp
      have "unit_ok (unit_final out (analyses (db ?st1) ! i))" for out
        unfolding row using cl by (rule unit_ok_final)
      then have "store_ok (commit (update_analysis i (unit_final out) ?st1))" for out
        using ok1 by (simp add: store_ok_update_analysis)
      from this [of "Inl e" for e] this [of "Inr d" for d] show ?thesis
        by (simp add: retry_closed [OF \<open>first_index _ _ = Some i\<close> failed Some] unit_final_fun
                 split: sum.split)
    qed
  qed
qed

lemma reachable_ok: "reachable st \<Longrightarrow> store_ok st"
proof (induction rule: reachable.induct)
  case (initial st)
  then show ?case by (simp add: store_ok_def db_ok_def)
next
  case (job st lib cfg backend envs session_id document_text ids sequential)
  then show ?case by (simp add: analyze_document_ok)
next
  case (retry st lib cfg backend env session_id persona_id document_text)
  then show ?case by (simp add: retry_ok)
next
  case (other st d)
  then have "db_ok d"
    by (auto simp: store_ok_def db_ok_def list_all_iff)
  with other show ?case
    by (simp add: store_ok_def)
qed


text \<open>
  C9. Result and error exclude each other. In every store the service can reach through
  \<open>analyze_document\<close> (with the sequential execution of its units) and
  \<open>retry_failed_analysis\<close>, in the database and in every database a commit has shown
  to other readers, no unit carries both a result and an error message: a unit in status
  \<open>completed\<close> carries a result and no error, a unit in status \<open>failed\<close> an error and
  no result.
\<close>

theorem result_error_exclusive:
  assumes "reachable st" and "d = db st \<or> d \<in> set (commits st)" and "a \<in> set (analyses d)"
  shows "\<not> (has_result a \<and> error_message a \<noteq> None)
       \<and> (a_status a = ''completed'' \<longrightarrow> has_result a \<and> error_message a = None)
       \<and> (a_status a = ''failed'' \<longrightarrow> error_message a \<noteq> None \<and> \<not> has_result a)"
proof -
  from assms(1) have "store_ok st"
    by (rule reachable_ok)
  with assms(2) have "db_ok d"
    by (auto simp: store_ok_def list_all_iff)
  with assms(3) have "unit_ok a"
    by (simp add: db_ok_def list_all_iff)
  then show ?thesis
    by (auto simp: unit_ok_def)
qed

theorem result_error_exclusive_witness:
  "a_status (analyses (db store_after_timeouts) ! 0) = ''failed''
   \<and> error_message (analyses (db store_after_timeouts) ! 0) \<noteq> None
   \<and> \<not> has_result (analyses (db store_after_timeouts) ! 0)"
proof -
  have init: "reachable store0"
    by (rule reachable.initial) (simp_all add: store0_def db0_def)
  have reach: "reachable store_after_timeouts"
    unfolding store_after_timeouts_def by (rule reachable.job [OF init])
  have empty: "analyses (db store0) = []"
    by (simp add: store0_def db0_def)
  have some: "filter (\<lambda>pid. get_persona (db store0) pid None \<noteq> None) [''p1''] \<noteq> []"
    by (simp add: store0_personas)
  from analyze_resolved [OF store0_session some, of lib0 default_settings
         "Some ClaudeCodeBackend" "\<lambda>k. times_out 3" "''Buy now.''" True]
  have len: "length (analyses (db store_after_timeouts)) = 1"
    and row: "analyses (db store_after_timeouts) ! 0 =
       unit_final (outcome_of lib0 default_settings (Some ClaudeCodeBackend) (\<lambda>k. times_out 3)
                     ''Buy now.'' persona1 0)
                  (new_analysis ''s1'' ''p1'')"
    by (auto simp: store_after_timeouts_def store0_personas empty)
  have out: "outcome_of lib0 default_settings (Some ClaudeCodeBackend) (\<lambda>k. times_out 3)
               ''Buy now.'' persona1 0 = Inl (Exception ''Analysis timed out after all retries'')"
    unfolding outcome_of_def by (simp only: backend_times_out unit_outcome.simps)
  have failed: "a_status (analyses (db store_after_timeouts) ! 0) = ''failed''"
    by (simp add: row out stored_failure_def)
  have member: "analyses (db store_after_timeouts) ! 0 \<in> set (analyses (db store_after_timeouts))"
    using len by simp
  from result_error_exclusive [OF reach _ member] failed
  show ?thesis
    by simp
qed

end
